theory Spec2Isabelle
  imports Main "HOL-Library.Word"
begin

section \<open>The AbstractList object type of generic/tclAbstractList.c\<close>

text \<open>
  A shallow embedding of the C file. Pointers are addresses into an explicit store, the
  process abort of \<^verbatim>\<open>Tcl_Panic\<close> and every undefined memory access are values of a
  fault type, the output parameters of a function are passed in and handed back, and the
  loops are recursive functions over the loop counter.
\<close>

subsection \<open>Data\<close>

type_synonym addr = nat

text \<open>The address of a C function; a procedure slot holds one or is NULL.\<close>

type_synonym fnptr = nat

text \<open>The subtype's bytes that follow the header in the same allocation.\<close>

type_synonym payload = "int list"

text \<open>
  The type tag of a value: the address of \<^verbatim>\<open>tclAbstractListType\<close> or that of another
  registered type, told apart by its name.
\<close>

datatype Tcl_ObjType = tclAbstractListType | otherType string

text \<open>
  \<^verbatim>\<open>Tcl_Obj\<close>: \<open>bytes\<close> is the buffer of the string representation, as the bytes it
  holds (NULL when the representation is invalid), \<open>length_field\<close> the C field
  \<^verbatim>\<open>length\<close>, the count of bytes of the string. \<open>ptr1\<close> and \<open>ptr2\<close> are
  \<^verbatim>\<open>internalRep.twoPtrValue.ptr1\<close> and \<^verbatim>\<open>ptr2\<close>; \<open>ptr2\<close> points at the payload inside
  the block whose address it holds.
\<close>

record Tcl_Obj =
  refCount :: int
  bytes :: "string option"
  length_field :: int
  typePtr :: "Tcl_ObjType option"
  ptr1 :: "addr option"
  ptr2 :: "addr option"

datatype Tcl_AbstractListVersion = TCL_ABSTRACTLIST_VERSION_1

text \<open>\<^verbatim>\<open>struct AbstractList\<close>, the header, with the payload that follows it.\<close>

record AbstractList =
  version :: Tcl_AbstractListVersion
  repSize :: "64 word"
  typeName :: string
  elements :: "addr option"
  newObjProc :: "fnptr option"
  dupRepProc :: "fnptr option"
  lengthProc :: "fnptr option"
  indexProc :: "fnptr option"
  sliceProc :: "fnptr option"
  reverseProc :: "fnptr option"
  abstractValue :: payload

text \<open>
  A block handed out by \<^verbatim>\<open>ckalloc\<close>: a header with its payload, or an array of
  \<^verbatim>\<open>Tcl_Obj *\<close> (an element cache).
\<close>

datatype block = RepBlock AbstractList | ArrBlock "addr option list"

text \<open>
  The store: the values, the allocated blocks, and the allocation frontier \<open>brk\<close>, the
  next address handed out.
\<close>

record heap =
  objs :: "addr \<rightharpoonup> Tcl_Obj"
  mem :: "addr \<rightharpoonup> block"
  brk :: addr

text \<open>
  What the file takes from outside, as parameters: the layout constants of the platform,
  the size up to which the allocator grants a request, the contents of memory that nothing
  has written yet (of a payload, and of byte \<open>i\<close> of a string buffer), and the meaning
  of the subtype's procedures. A length or index
  procedure reads only the payload of the value it is called on (the logical sequence of
  a header does not change); the index procedure makes a fresh value, given here by its
  string form; the duplication hook may change the store at will.
\<close>

record env =
  sizeof_AbstractList :: "64 word"
  sizeof_ptr :: nat
  alloc_limit :: nat
  junk :: payload
  junk_byte :: "nat \<Rightarrow> char"
  lengthFn :: "fnptr \<Rightarrow> payload \<Rightarrow> int"
  indexFn :: "fnptr \<Rightarrow> payload \<Rightarrow> int \<Rightarrow> string"
  dupRepFn :: "fnptr \<Rightarrow> heap \<Rightarrow> addr \<Rightarrow> addr \<Rightarrow> heap"

text \<open>
  How a call ends when it does not return: \<^verbatim>\<open>Tcl_Panic\<close> with its message, or an
  undefined memory access (a NULL or dangling pointer, a call through a NULL procedure
  slot, an index outside an array or a buffer).
\<close>

datatype fault = Panic string | MemoryFault

datatype retcode = TCL_OK | TCL_ERROR

text \<open>The interpreter, as far as this file writes it: the result and the error code.\<close>

record Tcl_Interp =
  result :: string
  errorCode :: "string list"

text \<open>
  The slot identifiers of \<^verbatim>\<open>Tcl_AbstractListProcType\<close>; a C enum parameter can hold any
  integer, so every other value is kept as \<open>TCL_ABSL_unknown\<close>.
\<close>

datatype Tcl_AbstractListProcType =
    TCL_ABSL_NEW
  | TCL_ABSL_DUPREP
  | TCL_ABSL_LENGTH
  | TCL_ABSL_INDEX
  | TCL_ABSL_SLICE
  | TCL_ABSL_REVERSE
  | TCL_ABSL_unknown int

subsection \<open>Integers\<close>

text \<open>
  The length procedure returns a \<^verbatim>\<open>Tcl_WideInt\<close> (\<^verbatim>\<open>FreeAbstractListInternalRep\<close> keeps
  it in one, \<^verbatim>\<open>Tcl_AbstractListObjLength\<close> returns it as one). Where the file assigns it to
  an \<^verbatim>\<open>int\<close>, the value is reduced to 32 bits, two's complement.
\<close>

definition int_of_wide :: "int \<Rightarrow> int" where
  "int_of_wide n = (n + 2147483648) mod 4294967296 - 2147483648"

definition INT_MAX :: int where
  "INT_MAX = 2147483647"

definition INT_MIN :: int where
  "INT_MIN = - 2147483648"

subsection \<open>The services of the value system\<close>

definition NUL :: char where
  "NUL = CHR 0x00"

definition deref_obj :: "heap \<Rightarrow> addr \<Rightarrow> fault + Tcl_Obj" where
  "deref_obj h p = (case objs h p of None \<Rightarrow> Inl MemoryFault | Some ob \<Rightarrow> Inr ob)"

definition deref_rep :: "heap \<Rightarrow> addr option \<Rightarrow> fault + AbstractList" where
  "deref_rep h q =
     (case q of
        None \<Rightarrow> Inl MemoryFault
      | Some r \<Rightarrow>
          (case mem h r of
             Some (RepBlock rep) \<Rightarrow> Inr rep
           | _ \<Rightarrow> Inl MemoryFault))"

definition deref_arr :: "heap \<Rightarrow> addr \<Rightarrow> fault + addr option list" where
  "deref_arr h a =
     (case mem h a of
        Some (ArrBlock es) \<Rightarrow> Inr es
      | _ \<Rightarrow> Inl MemoryFault)"

text \<open>
  Modelled from the spec: the allocator (\<^verbatim>\<open>ckalloc\<close>, \<^verbatim>\<open>ckfree\<close>, macros of tcl.h).
  A request is granted at the frontier, or refused (NULL) when it exceeds the limit
  (\<^verbatim>\<open>Tcl_AbstractListObjGetElements\<close> tests for NULL); the block starts with the
  contents \<open>b\<close>. Freeing what is not an allocated block is a memory fault.
\<close>

definition ckalloc :: "env \<Rightarrow> heap \<Rightarrow> nat \<Rightarrow> block \<Rightarrow> (addr \<times> heap) option" where
  "ckalloc E h n b =
     (if n \<le> alloc_limit E
      then Some (brk h, h\<lparr>mem := (mem h)(brk h \<mapsto> b), brk := Suc (brk h)\<rparr>)
      else None)"

definition ckfree :: "heap \<Rightarrow> addr \<Rightarrow> fault + heap" where
  "ckfree h a =
     (case mem h a of
        None \<Rightarrow> Inl MemoryFault
      | Some b \<Rightarrow> Inr (h\<lparr>mem := (mem h)(a := None)\<rparr>))"

text \<open>
  Modelled from the spec: create-empty-handle (\<^verbatim>\<open>TclNewObj\<close>): a value with reference
  count zero, the empty string and no type.
\<close>

definition alloc_obj :: "heap \<Rightarrow> Tcl_Obj \<Rightarrow> addr \<times> heap" where
  "alloc_obj h ob = (brk h, h\<lparr>objs := (objs h)(brk h \<mapsto> ob), brk := Suc (brk h)\<rparr>)"

definition TclNewObj :: "heap \<Rightarrow> addr \<times> heap" where
  "TclNewObj h =
     alloc_obj h \<lparr>refCount = 0, bytes = Some [NUL], length_field = 0, typePtr = None,
       ptr1 = None, ptr2 = None\<rparr>"

text \<open>A fresh string value, as the index procedure of a subtype returns it.\<close>

definition string_obj :: "string \<Rightarrow> Tcl_Obj" where
  "string_obj s =
     \<lparr>refCount = 0, bytes = Some (s @ [NUL]), length_field = int (length s), typePtr = None,
       ptr1 = None, ptr2 = None\<rparr>"

text \<open>Modelled from the spec: invalidate-cached-string.\<close>

definition Tcl_InvalidateStringRep :: "Tcl_Obj \<Rightarrow> Tcl_Obj" where
  "Tcl_InvalidateStringRep ob = ob\<lparr>bytes := None\<rparr>"

text \<open>
  Modelled from the spec: store-representation(handle, tag, headerPointer). The value
  it is called on here is fresh, so there is no older representation to release.
\<close>

definition Tcl_StoreInternalRep ::
  "Tcl_Obj \<Rightarrow> Tcl_ObjType \<Rightarrow> addr option \<Rightarrow> addr option \<Rightarrow> Tcl_Obj" where
  "Tcl_StoreInternalRep ob ty p1 p2 = ob\<lparr>typePtr := Some ty, ptr1 := p1, ptr2 := p2\<rparr>"

text \<open>Modelled from the spec: get-tag(handle), compared with a tag.\<close>

definition TclHasInternalRep :: "Tcl_Obj \<Rightarrow> Tcl_ObjType \<Rightarrow> bool" where
  "TclHasInternalRep ob ty = (typePtr ob = Some ty)"

text \<open>
  Modelled from the spec: the header pointer of a value whose tag is the abstract-list
  tag, NULL for any other value (\<^verbatim>\<open>AbstractListGetInternalRep\<close> of tclAbstractList.h).
\<close>

definition AbstractListGetInternalRep :: "Tcl_Obj \<Rightarrow> addr option" where
  "AbstractListGetInternalRep ob =
     (if TclHasInternalRep ob tclAbstractListType then ptr1 ob else None)"

text \<open>Modelled from the spec: increment-reference and decrement-reference, which tears
  the value down when the count it finds is one or less.\<close>

definition Tcl_IncrRefCount :: "heap \<Rightarrow> addr \<Rightarrow> fault + heap" where
  "Tcl_IncrRefCount h p =
     (case objs h p of
        None \<Rightarrow> Inl MemoryFault
      | Some ob \<Rightarrow> Inr (h\<lparr>objs := (objs h)(p \<mapsto> ob\<lparr>refCount := refCount ob + 1\<rparr>)\<rparr>))"

definition Tcl_DecrRefCount :: "heap \<Rightarrow> addr \<Rightarrow> fault + heap" where
  "Tcl_DecrRefCount h p =
     (case objs h p of
        None \<Rightarrow> Inl MemoryFault
      | Some ob \<Rightarrow>
          (if refCount ob \<le> 1
           then Inr (h\<lparr>objs := (objs h)(p := None)\<rparr>)
           else Inr (h\<lparr>objs := (objs h)(p \<mapsto> ob\<lparr>refCount := refCount ob - 1\<rparr>)\<rparr>)))"



subsection \<open>Calls through the operation table\<close>

definition call_lengthProc :: "env \<Rightarrow> AbstractList \<Rightarrow> fault + int" where
  "call_lengthProc E rep =
     (case lengthProc rep of
        None \<Rightarrow> Inl MemoryFault
      | Some f \<Rightarrow> Inr (lengthFn E f (abstractValue rep)))"

definition call_indexProc :: "env \<Rightarrow> heap \<Rightarrow> AbstractList \<Rightarrow> int \<Rightarrow> fault + (addr \<times> heap)" where
  "call_indexProc E h rep i =
     (case indexProc rep of
        None \<Rightarrow> Inl MemoryFault
      | Some f \<Rightarrow> Inr (alloc_obj h (string_obj (indexFn E f (abstractValue rep) i))))"

subsection \<open>Length, creation and the single-element accessor\<close>

definition Tcl_AbstractListObjLength :: "env \<Rightarrow> heap \<Rightarrow> addr \<Rightarrow> fault + int" where
  "Tcl_AbstractListObjLength E h abstractListObjPtr =
     (case deref_obj h abstractListObjPtr of
        Inl e \<Rightarrow> Inl e
      | Inr ob \<Rightarrow>
          (case deref_rep h (AbstractListGetInternalRep ob) of
             Inl e \<Rightarrow> Inl e
           | Inr rep \<Rightarrow> call_lengthProc E rep))"

text \<open>
  \<^verbatim>\<open>repSize = sizeof(AbstractList) + requiredSize\<close> is an addition of \<^verbatim>\<open>size_t\<close>, here of
  64-bit words, which wraps around. The header is written through the pointer
  \<^verbatim>\<open>ckalloc\<close> returns, without a test: a refused request ends in a memory fault, and so
  does a block smaller than the header, which is what a sum that wrapped around asks
  for. The payload is left as allocated.
\<close>

definition Tcl_NewAbstractListObj ::
  "env \<Rightarrow> heap \<Rightarrow> Tcl_Interp option \<Rightarrow> string \<Rightarrow> 64 word \<Rightarrow> fault + (addr \<times> heap)" where
  "Tcl_NewAbstractListObj E h interp tyName requiredSize =
     (case TclNewObj h of
        (objPtr, h1) \<Rightarrow>
          (let rsz = sizeof_AbstractList E + requiredSize in
           case ckalloc E h1 (unat rsz)
                  (RepBlock \<lparr>version = TCL_ABSTRACTLIST_VERSION_1, repSize = rsz,
                     typeName = tyName, elements = None, newObjProc = None,
                     dupRepProc = None, lengthProc = None, indexProc = None,
                     sliceProc = None, reverseProc = None, abstractValue = junk E\<rparr>) of
             None \<Rightarrow> Inl MemoryFault
           | Some (abstractListRepPtr, h2) \<Rightarrow>
               (if rsz < sizeof_AbstractList E then Inl MemoryFault
                else
                  (case deref_obj h2 objPtr of
                     Inl e \<Rightarrow> Inl e
                   | Inr ob \<Rightarrow>
                       Inr (objPtr,
                         h2\<lparr>objs := (objs h2)(objPtr \<mapsto>
                           Tcl_InvalidateStringRep
                             (Tcl_StoreInternalRep ob tclAbstractListType
                                (Some abstractListRepPtr) (Some abstractListRepPtr)))\<rparr>)))))"

definition ObjIndex_panic :: string where
  "ObjIndex_panic = ''Tcl_AbstractListObjIndex called without and AbstractList Obj.''"

definition Tcl_AbstractListObjIndex ::
  "env \<Rightarrow> heap \<Rightarrow> addr \<Rightarrow> int \<Rightarrow> fault + (addr \<times> heap)" where
  "Tcl_AbstractListObjIndex E h abstractListObjPtr index =
     (case deref_obj h abstractListObjPtr of
        Inl e \<Rightarrow> Inl e
      | Inr ob \<Rightarrow>
          (if typePtr ob \<noteq> Some tclAbstractListType then Inl (Panic ObjIndex_panic)
           else
             (case deref_rep h (ptr1 ob) of
                Inl e \<Rightarrow> Inl e
              | Inr rep \<Rightarrow> call_indexProc E h rep index)))"

subsection \<open>Teardown\<close>

text \<open>The loop \<^verbatim>\<open>for (i = 0; i < llen; i++)\<close> over the cache, releasing each entry.\<close>

function free_elements :: "heap \<Rightarrow> addr \<Rightarrow> int \<Rightarrow> int \<Rightarrow> fault + heap" where
  "free_elements h a i llen =
     (if i < llen then
        (case deref_arr h a of
           Inl e \<Rightarrow> Inl e
         | Inr es \<Rightarrow>
             (if 0 \<le> i \<and> nat i < length es then
                (case es ! nat i of
                   None \<Rightarrow> free_elements h a (i + 1) llen
                 | Some el \<Rightarrow>
                     (case Tcl_DecrRefCount h el of
                        Inl e \<Rightarrow> Inl e
                      | Inr h1 \<Rightarrow> free_elements h1 a (i + 1) llen))
              else Inl MemoryFault))
      else Inr h)"
  by pat_completeness auto
termination
  by (relation "measure (\<lambda>(h, a, i, llen). nat (llen - i))") auto

definition FreeAbstractListInternalRep :: "env \<Rightarrow> heap \<Rightarrow> addr \<Rightarrow> fault + heap" where
  "FreeAbstractListInternalRep E h abstractListObjPtr =
     (case deref_obj h abstractListObjPtr of
        Inl e \<Rightarrow> Inl e
      | Inr ob \<Rightarrow>
          (case ptr1 ob of
             None \<Rightarrow> Inl MemoryFault
           | Some r \<Rightarrow>
               (case deref_rep h (Some r) of
                  Inl e \<Rightarrow> Inl e
                | Inr rep \<Rightarrow>
                    (case (case elements rep of
                             None \<Rightarrow> Inr h
                           | Some a \<Rightarrow>
                               (case call_lengthProc E rep of
                                  Inl e \<Rightarrow> Inl e
                                | Inr llen \<Rightarrow>
                                    (case free_elements h a 0 llen of
                                       Inl e \<Rightarrow> Inl e
                                     | Inr h1 \<Rightarrow> ckfree h1 a))) of
                       Inl e \<Rightarrow> Inl e
                     | Inr h2 \<Rightarrow>
                         (case ckfree h2 r of
                            Inl e \<Rightarrow> Inl e
                          | Inr h3 \<Rightarrow>
                              (case deref_obj h3 abstractListObjPtr of
                                 Inl e \<Rightarrow> Inl e
                               | Inr ob3 \<Rightarrow>
                                   Inr (h3\<lparr>objs := (objs h3)(abstractListObjPtr \<mapsto>
                                          ob3\<lparr>ptr1 := None, ptr2 := None\<rparr>)\<rparr>)))))))"

subsection \<open>Duplication\<close>

text \<open>
  \<^verbatim>\<open>*copyAbstractListRepPtr = *srcAbstractListRepPtr\<close> assigns the header, every field of
  it, into the new block of \<^verbatim>\<open>repSize\<close> bytes: a memory fault when the request is refused
  or the block is smaller than the header. The payload of the new block stays as
  allocated until the subtype's hook, when there is one, writes it.
\<close>

definition DupAbstractListInternalRep :: "env \<Rightarrow> heap \<Rightarrow> addr \<Rightarrow> addr \<Rightarrow> fault + heap" where
  "DupAbstractListInternalRep E h srcPtr copyPtr =
     (case deref_obj h srcPtr of
        Inl e \<Rightarrow> Inl e
      | Inr src \<Rightarrow>
          (case deref_rep h (ptr1 src) of
             Inl e \<Rightarrow> Inl e
           | Inr srcRep \<Rightarrow>
               (case ckalloc E h (unat (repSize srcRep))
                       (RepBlock (srcRep\<lparr>abstractValue := junk E\<rparr>)) of
                  None \<Rightarrow> Inl MemoryFault
                | Some (copyRepPtr, h1) \<Rightarrow>
                    (if repSize srcRep < sizeof_AbstractList E then Inl MemoryFault
                     else
                       (case deref_obj h1 copyPtr of
                          Inl e \<Rightarrow> Inl e
                        | Inr cp \<Rightarrow>
                            (let h2 = h1\<lparr>objs := (objs h1)(copyPtr \<mapsto>
                                        cp\<lparr>ptr1 := Some copyRepPtr, ptr2 := Some copyRepPtr,
                                           typePtr := Some tclAbstractListType\<rparr>)\<rparr>
                             in case dupRepProc srcRep of
                                  None \<Rightarrow> Inr h2
                                | Some f \<Rightarrow> Inr (dupRepFn E f h2 srcPtr copyPtr)))))))"

subsection \<open>The disallowed conversion and the copy\<close>

definition SetFromAny_panic :: string where
  "SetFromAny_panic = ''SetAbstractListFromAny: should never be called''"

definition SetAbstractListFromAny :: "Tcl_Interp option \<Rightarrow> addr \<Rightarrow> fault + retcode" where
  "SetAbstractListFromAny interp objPtr = Inl (Panic SetFromAny_panic)"

definition TclAbstractListObjCopy ::
  "env \<Rightarrow> heap \<Rightarrow> Tcl_Interp option \<Rightarrow> addr \<Rightarrow> fault + (addr option \<times> heap)" where
  "TclAbstractListObjCopy E h interp abstractListObjPtr =
     (case deref_obj h abstractListObjPtr of
        Inl e \<Rightarrow> Inl e
      | Inr ob \<Rightarrow>
          (case (case AbstractListGetInternalRep ob of
                   None \<Rightarrow> SetAbstractListFromAny interp abstractListObjPtr
                 | Some r \<Rightarrow> Inr TCL_OK) of
             Inl e \<Rightarrow> Inl e
           | Inr TCL_ERROR \<Rightarrow> Inr (None, h)
           | Inr TCL_OK \<Rightarrow>
               (case TclNewObj h of
                  (copyPtr, h1) \<Rightarrow>
                    (case deref_obj h1 copyPtr of
                       Inl e \<Rightarrow> Inl e
                     | Inr cp \<Rightarrow>
                         (case DupAbstractListInternalRep E
                                 (h1\<lparr>objs := (objs h1)(copyPtr \<mapsto> Tcl_InvalidateStringRep cp)\<rparr>)
                                 abstractListObjPtr copyPtr of
                            Inl e \<Rightarrow> Inl e
                          | Inr h2 \<Rightarrow> Inr (Some copyPtr, h2))))))"

subsection \<open>The string projection\<close>







subsection \<open>Bulk materialization\<close>

definition store_elem :: "heap \<Rightarrow> addr \<Rightarrow> int \<Rightarrow> addr option \<Rightarrow> fault + heap" where
  "store_elem h a i v =
     (case deref_arr h a of
        Inl e \<Rightarrow> Inl e
      | Inr es \<Rightarrow>
          (if 0 \<le> i \<and> nat i < length es
           then Inr (h\<lparr>mem := (mem h)(a \<mapsto> ArrBlock (es[nat i := v]))\<rparr>)
           else Inl MemoryFault))"

text \<open>
  \<^verbatim>\<open>for (i = 0; i < objc; i++) { objv[i] = indexProc(objPtr, i); Tcl_IncrRefCount(objv[i]); }\<close>
\<close>

function fill_elements ::
  "env \<Rightarrow> heap \<Rightarrow> addr \<Rightarrow> addr \<Rightarrow> int \<Rightarrow> int \<Rightarrow> fault + heap" where
  "fill_elements E h r objv i objc =
     (if i < objc then
        (case deref_rep h (Some r) of
           Inl e \<Rightarrow> Inl e
         | Inr rep \<Rightarrow>
             (case call_indexProc E h rep i of
                Inl e \<Rightarrow> Inl e
              | Inr (el, h1) \<Rightarrow>
                  (case store_elem h1 objv i (Some el) of
                     Inl e \<Rightarrow> Inl e
                   | Inr h2 \<Rightarrow>
                       (case Tcl_IncrRefCount h2 el of
                          Inl e \<Rightarrow> Inl e
                        | Inr h3 \<Rightarrow> fill_elements E h3 r objv (i + 1) objc))))
      else Inr h)"
  by pat_completeness auto
termination
  by (relation "measure (\<lambda>(E, h, r, objv, i, objc). nat (objc - i))") auto

text \<open>What the two error branches leave in the interpreter, when there is one.\<close>

definition set_error ::
  "Tcl_Interp option \<Rightarrow> string \<Rightarrow> string list \<Rightarrow> Tcl_Interp option" where
  "set_error interp msg code =
     (case interp of
        None \<Rightarrow> None
      | Some I \<Rightarrow> Some (I\<lparr>result := msg, errorCode := code\<rparr>))"

text \<open>
  \<open>objc0\<close> and \<open>objv0\<close> are what \<^verbatim>\<open>*objcPtr\<close> and \<^verbatim>\<open>*objvPtr\<close> hold at the call; the
  result gives what they hold at the return. \<^verbatim>\<open>objc\<close> is an \<^verbatim>\<open>int\<close>.
\<close>

definition Tcl_AbstractListObjGetElements ::
  "env \<Rightarrow> heap \<Rightarrow> Tcl_Interp option \<Rightarrow> addr \<Rightarrow> int \<Rightarrow> addr option \<Rightarrow>
     fault + (retcode \<times> heap \<times> Tcl_Interp option \<times> int \<times> addr option)" where
  "Tcl_AbstractListObjGetElements E h interp objPtr objc0 objv0 =
     (case deref_obj h objPtr of
        Inl e \<Rightarrow> Inl e
      | Inr ob \<Rightarrow>
          (if TclHasInternalRep ob tclAbstractListType then
             (case AbstractListGetInternalRep ob of
                None \<Rightarrow> Inl MemoryFault
              | Some r \<Rightarrow>
                  (case deref_rep h (Some r) of
                     Inl e \<Rightarrow> Inl e
                   | Inr rep \<Rightarrow>
                       (case call_lengthProc E rep of
                          Inl e \<Rightarrow> Inl e
                        | Inr n \<Rightarrow>
                            (let objc = int_of_wide n in
                             if objc > 0 then
                               (case elements rep of
                                  Some a \<Rightarrow> Inr (TCL_OK, h, interp, objc, Some a)
                                | None \<Rightarrow>
                                    (case ckalloc E h (sizeof_ptr E * nat objc)
                                            (ArrBlock (replicate (nat objc) None)) of
                                       None \<Rightarrow>
                                         Inr (TCL_ERROR, h,
                                           set_error interp ''max length of a Tcl list exceeded''
                                             [''TCL'', ''MEMORY''],
                                           objc0, objv0)
                                     | Some (objv, h1) \<Rightarrow>
                                         (case fill_elements E
                                                 (h1\<lparr>mem := (mem h1)(r \<mapsto>
                                                    RepBlock (rep\<lparr>elements := Some objv\<rparr>))\<rparr>)
                                                 r objv 0 objc of
                                            Inl e \<Rightarrow> Inl e
                                          | Inr h2 \<Rightarrow> Inr (TCL_OK, h2, interp, objc, Some objv))))
                             else Inr (TCL_OK, h, interp, objc, None)))))
           else
             Inr (TCL_ERROR, h,
               set_error interp ''value is not an abstract list'' [''TCL'', ''VALUE'', ''UNKNOWN''],
               objc0, objv0)))"

subsection \<open>Registration\<close>

definition store_rep :: "heap \<Rightarrow> addr \<Rightarrow> (AbstractList \<Rightarrow> AbstractList) \<Rightarrow> fault + heap" where
  "store_rep h r f =
     (case deref_rep h (Some r) of
        Inl e \<Rightarrow> Inl e
      | Inr rep \<Rightarrow> Inr (h\<lparr>mem := (mem h)(r \<mapsto> RepBlock (f rep))\<rparr>))"

definition Tcl_AbstractListSetProc ::
  "heap \<Rightarrow> addr \<Rightarrow> Tcl_AbstractListProcType \<Rightarrow> fnptr option \<Rightarrow> fault + (retcode \<times> heap)" where
  "Tcl_AbstractListSetProc h objPtr ptype proc =
     (case deref_obj h objPtr of
        Inl e \<Rightarrow> Inl e
      | Inr ob \<Rightarrow>
          (case AbstractListGetInternalRep ob of
             None \<Rightarrow> Inr (TCL_ERROR, h)
           | Some r \<Rightarrow>
               (case (case ptype of
                        TCL_ABSL_NEW \<Rightarrow> map_sum id Some (store_rep h r (\<lambda>rep. rep\<lparr>newObjProc := proc\<rparr>))
                      | TCL_ABSL_DUPREP \<Rightarrow> map_sum id Some (store_rep h r (\<lambda>rep. rep\<lparr>dupRepProc := proc\<rparr>))
                      | TCL_ABSL_LENGTH \<Rightarrow> map_sum id Some (store_rep h r (\<lambda>rep. rep\<lparr>lengthProc := proc\<rparr>))
                      | TCL_ABSL_INDEX \<Rightarrow> map_sum id Some (store_rep h r (\<lambda>rep. rep\<lparr>indexProc := proc\<rparr>))
                      | TCL_ABSL_SLICE \<Rightarrow> map_sum id Some (store_rep h r (\<lambda>rep. rep\<lparr>sliceProc := proc\<rparr>))
                      | TCL_ABSL_REVERSE \<Rightarrow> map_sum id Some (store_rep h r (\<lambda>rep. rep\<lparr>reverseProc := proc\<rparr>))
                      | TCL_ABSL_unknown k \<Rightarrow> Inr None) of
                  Inl e \<Rightarrow> Inl e
                | Inr None \<Rightarrow> Inr (TCL_ERROR, h)
                | Inr (Some h1) \<Rightarrow> Inr (TCL_OK, h1))))"

subsection \<open>Reading the results\<close>

text \<open>The procedure a slot identifier names in a header: NULL for an unknown identifier.\<close>

fun slot :: "Tcl_AbstractListProcType \<Rightarrow> AbstractList \<Rightarrow> fnptr option" where
  "slot TCL_ABSL_NEW rep = newObjProc rep"
| "slot TCL_ABSL_DUPREP rep = dupRepProc rep"
| "slot TCL_ABSL_LENGTH rep = lengthProc rep"
| "slot TCL_ABSL_INDEX rep = indexProc rep"
| "slot TCL_ABSL_SLICE rep = sliceProc rep"
| "slot TCL_ABSL_REVERSE rep = reverseProc rep"
| "slot (TCL_ABSL_unknown k) rep = None"

fun recognized :: "Tcl_AbstractListProcType \<Rightarrow> bool" where
  "recognized (TCL_ABSL_unknown k) = False"
| "recognized ptype = True"

text \<open>The value behind entry \<open>i\<close> of an element array, when there is one.\<close>

definition entry :: "heap \<Rightarrow> addr option \<Rightarrow> nat \<Rightarrow> Tcl_Obj option" where
  "entry h objv i =
     (case objv of
        None \<Rightarrow> None
      | Some a \<Rightarrow>
          (case mem h a of
             Some (ArrBlock es) \<Rightarrow>
               (if i < length es then (case es ! i of None \<Rightarrow> None | Some el \<Rightarrow> objs h el)
                else None)
           | _ \<Rightarrow> None))"

text \<open>The element cache the header of a value points to, when the value has a header.\<close>

definition cache_of :: "heap \<Rightarrow> addr \<Rightarrow> addr option" where
  "cache_of h p =
     (case objs h p of
        None \<Rightarrow> None
      | Some ob \<Rightarrow> (case deref_rep h (ptr1 ob) of Inl e \<Rightarrow> None | Inr rep \<Rightarrow> elements rep))"





subsection \<open>A subtype: the arithmetic series\<close>

text \<open>
  The payload is \<open>[start, step, count]\<close>; procedure 100 is the length, 101 the index,
  which prints \<open>start + i * step\<close> in decimal, and 102 the duplication hook, which copies
  the payload of the source into the block of the copy.
\<close>

fun dec_nat :: "nat \<Rightarrow> string" where
  "dec_nat n =
     (if n < 10 then [''0123456789'' ! n]
      else dec_nat (n div 10) @ [''0123456789'' ! (n mod 10)])"

declare dec_nat.simps [simp del]

definition dec_int :: "int \<Rightarrow> string" where
  "dec_int k = (if k < 0 then CHR ''-'' # dec_nat (nat (- k)) else dec_nat (nat k))"

definition series_length :: "payload \<Rightarrow> int" where
  "series_length pl = (case pl of [start, step, count] \<Rightarrow> count | _ \<Rightarrow> 0)"

definition series_index :: "payload \<Rightarrow> int \<Rightarrow> string" where
  "series_index pl i = (case pl of [start, step, count] \<Rightarrow> dec_int (start + i * step) | _ \<Rightarrow> [])"

definition series_dup :: "heap \<Rightarrow> addr \<Rightarrow> addr \<Rightarrow> heap" where
  "series_dup h srcPtr copyPtr =
     (case (deref_obj h srcPtr, deref_obj h copyPtr) of
        (Inr src, Inr cp) \<Rightarrow>
          (case (deref_rep h (ptr1 src), ptr1 cp, deref_rep h (ptr1 cp)) of
             (Inr srcRep, Some rc, Inr cpRep) \<Rightarrow>
               h\<lparr>mem := (mem h)(rc \<mapsto> RepBlock (cpRep\<lparr>abstractValue := abstractValue srcRep\<rparr>))\<rparr>
           | _ \<Rightarrow> h)
      | _ \<Rightarrow> h)"

text \<open>
  A second subtype, a run of empty strings: the payload is \<open>[count]\<close>, procedure 200
  is the length and 201 the index, which gives the empty string at every position.
\<close>

definition blanks_length :: "payload \<Rightarrow> int" where
  "blanks_length pl = (case pl of [count] \<Rightarrow> count | _ \<Rightarrow> 0)"

definition blanks_index :: "payload \<Rightarrow> int \<Rightarrow> string" where
  "blanks_index pl i = []"

definition demo_env :: env where
  "demo_env =
     \<lparr>sizeof_AbstractList = 88, sizeof_ptr = 8, alloc_limit = 4096, junk = [],
      junk_byte = (\<lambda>i. CHR ''?''),
      lengthFn = (\<lambda>f. if f = 200 then blanks_length else series_length),
      indexFn = (\<lambda>f. if f = 201 then blanks_index else series_index),
      dupRepFn = (\<lambda>f. series_dup)\<rparr>"



definition series_rep :: "payload \<Rightarrow> AbstractList" where
  "series_rep pl =
     \<lparr>version = TCL_ABSTRACTLIST_VERSION_1, repSize = 112, typeName = ''arithseries'',
      elements = None, newObjProc = None, dupRepProc = Some 102, lengthProc = Some 100,
      indexProc = Some 101, sliceProc = None, reverseProc = None, abstractValue = pl\<rparr>"

definition series_obj :: Tcl_Obj where
  "series_obj =
     \<lparr>refCount = 1, bytes = None, length_field = 0, typePtr = Some tclAbstractListType,
      ptr1 = Some 2, ptr2 = Some 2\<rparr>"

text \<open>A series value at address 1 with its header at 2, nothing cached.\<close>

definition series_heap :: "payload \<Rightarrow> heap" where
  "series_heap pl =
     \<lparr>objs = [1 \<mapsto> series_obj], mem = [2 \<mapsto> RepBlock (series_rep pl)], brk = 3\<rparr>"

text \<open>
  The series \<open>0, 2\<close> with its cache populated: the array at 3, the elements at 4 and 5,
  each held by the cache alone.
\<close>

definition cached_heap :: heap where
  "cached_heap =
     \<lparr>objs = [1 \<mapsto> series_obj,
              4 \<mapsto> (string_obj ''0'')\<lparr>refCount := 1\<rparr>,
              5 \<mapsto> (string_obj ''2'')\<lparr>refCount := 1\<rparr>],
      mem = [2 \<mapsto> RepBlock ((series_rep [0, 2, 2])\<lparr>elements := Some 3\<rparr>),
             3 \<mapsto> ArrBlock [Some 4, Some 5]],
      brk = 6\<rparr>"

text \<open>
  The same value after the index procedure of the run of empty strings is registered in
  its header: the cache still holds the strings of the series.
\<close>

definition stale_heap :: heap where
  "stale_heap =
     cached_heap\<lparr>mem := (mem cached_heap)(2 \<mapsto>
       RepBlock ((series_rep [0, 2, 2])\<lparr>elements := Some 3, indexProc := Some 201\<rparr>))\<rparr>"

text \<open>
  The value with its cache populated after the length procedure of the run of empty
  strings is registered in its header: on the payload of the series that length is 0.
\<close>

definition shrunk_heap :: heap where
  "shrunk_heap =
     cached_heap\<lparr>mem := (mem cached_heap)(2 \<mapsto>
       RepBlock ((series_rep [0, 2, 2])\<lparr>elements := Some 3, lengthProc := Some 200\<rparr>))\<rparr>"


text \<open>A plain string value at address 1.\<close>

definition plain_heap :: heap where
  "plain_heap = \<lparr>objs = [1 \<mapsto> (string_obj ''abc'')\<lparr>refCount := 1\<rparr>], mem = Map.empty, brk = 2\<rparr>"

section \<open>Properties\<close>

declare fill_elements.simps [simp del]
declare free_elements.simps [simp del]

subsection \<open>The disallowed conversion\<close>

text \<open>
  C7. The text-to-representation conversion never succeeds: for every interpreter and
  every value, \<open>SetAbstractListFromAny\<close> aborts the process with its own panic message.
  It returns no code (neither \<open>TCL_OK\<close> nor the recoverable \<open>TCL_ERROR\<close>), and its
  abort differs from the other ways a call of this file fails: the panic of the
  single-element accessor and a memory fault.
\<close>

theorem SetAbstractListFromAny_aborts:
  "SetAbstractListFromAny interp objPtr =
     Inl (Panic ''SetAbstractListFromAny: should never be called'')
   \<and> SetAbstractListFromAny interp objPtr \<noteq> Inr code
   \<and> SetAbstractListFromAny interp objPtr \<noteq> Inl MemoryFault
   \<and> SetAbstractListFromAny interp objPtr \<noteq> Inl (Panic ObjIndex_panic)"
  by (simp add: SetAbstractListFromAny_def SetFromAny_panic_def ObjIndex_panic_def)

subsection \<open>Creation\<close>

text \<open>
  C8, as amended. For every requested payload size \<open>S\<close> for which
  \<open>sizeof(AbstractList) + S\<close> does not exceed the range of \<^verbatim>\<open>size_t\<close> and the allocator
  grants the block, creation returns a new value with reference count zero, no string
  representation and the abstract-list tag; its header pointer and its payload pointer
  lead into one and the same new block, the only block the call adds; the header records
  \<open>repSize\<close> equal to the header size plus \<open>S\<close>, and the element cache and all six slots
  of the operation table are NULL.
\<close>

theorem Tcl_NewAbstractListObj_creates:
  assumes "unat (sizeof_AbstractList E) + unat S < 2 ^ 64"
    and "unat (sizeof_AbstractList E) + unat S \<le> alloc_limit E"
  shows "\<exists>objPtr h' ob r rep.
           Tcl_NewAbstractListObj E h interp tyName S = Inr (objPtr, h')
           \<and> objs h' objPtr = Some ob
           \<and> refCount ob = 0 \<and> bytes ob = None
           \<and> typePtr ob = Some tclAbstractListType
           \<and> ptr1 ob = Some r \<and> ptr2 ob = Some r
           \<and> mem h' r = Some (RepBlock rep)
           \<and> (\<forall>a. a \<noteq> r \<longrightarrow> mem h' a = mem h a)
           \<and> unat (repSize rep) = unat (sizeof_AbstractList E) + unat S
           \<and> elements rep = None
           \<and> newObjProc rep = None \<and> dupRepProc rep = None \<and> lengthProc rep = None
           \<and> indexProc rep = None \<and> sliceProc rep = None \<and> reverseProc rep = None"
proof -
  have sum: "unat (sizeof_AbstractList E + S) = unat (sizeof_AbstractList E) + unat S"
    using assms(1) unat_add_lem [of "sizeof_AbstractList E" S] by simp
  have fits: "\<not> sizeof_AbstractList E + S < sizeof_AbstractList E"
    using sum by (simp add: word_less_nat_alt)
  show ?thesis
    using assms(2) sum fits
    by (simp add: Tcl_NewAbstractListObj_def TclNewObj_def alloc_obj_def ckalloc_def
        deref_obj_def Tcl_InvalidateStringRep_def Tcl_StoreInternalRep_def Let_def)
qed

theorem Tcl_NewAbstractListObj_creates_witness:
  "unat (sizeof_AbstractList demo_env) + unat (24 :: 64 word) < 2 ^ 64
   \<and> unat (sizeof_AbstractList demo_env) + unat (24 :: 64 word) \<le> alloc_limit demo_env
   \<and> (\<exists>objPtr h' ob r rep.
           Tcl_NewAbstractListObj demo_env plain_heap None ''arithseries'' 24 = Inr (objPtr, h')
           \<and> objs h' objPtr = Some ob
           \<and> refCount ob = 0 \<and> bytes ob = None
           \<and> typePtr ob = Some tclAbstractListType
           \<and> ptr1 ob = Some r \<and> ptr2 ob = Some r
           \<and> mem h' r = Some (RepBlock rep)
           \<and> (\<forall>a. a \<noteq> r \<longrightarrow> mem h' a = mem plain_heap a)
           \<and> unat (repSize rep) = 112
           \<and> elements rep = None
           \<and> newObjProc rep = None \<and> dupRepProc rep = None \<and> lengthProc rep = None
           \<and> indexProc rep = None \<and> sliceProc rep = None \<and> reverseProc rep = None)"
proof -
  have g1: "unat (sizeof_AbstractList demo_env) + unat (24 :: 64 word) < 2 ^ 64"
    by (simp add: demo_env_def)
  have g2: "unat (sizeof_AbstractList demo_env) + unat (24 :: 64 word) \<le> alloc_limit demo_env"
    by (simp add: demo_env_def)
  have s: "unat (sizeof_AbstractList demo_env) + unat (24 :: 64 word) = 112"
    by (simp add: demo_env_def)
  show ?thesis
    using g1 g2 Tcl_NewAbstractListObj_creates [OF g1 g2, of plain_heap None "''arithseries''"]
    unfolding s by blast
qed

text \<open>
  The claim as stated fails for a size whose sum with the header size wraps around:
  for \<open>S = 2 ^ 64 - 88\<close> the sum is 0, the block has no room for the header, and
  writing the header is a memory fault. It fails as well for a size the allocator
  refuses, here 5000: the header is written through NULL.
\<close>

theorem Tcl_NewAbstractListObj_wrap_counterexample:
  "sizeof_AbstractList demo_env + (- 88) = 0
   \<and> Tcl_NewAbstractListObj demo_env plain_heap None ''arithseries'' (- 88) = Inl MemoryFault
   \<and> Tcl_NewAbstractListObj demo_env plain_heap None ''arithseries'' 5000 = Inl MemoryFault"
  by (simp add: Tcl_NewAbstractListObj_def TclNewObj_def alloc_obj_def ckalloc_def Let_def
      demo_env_def)

subsection \<open>The two policies on a value of another type\<close>

text \<open>
  C2, as amended. For every value whose tag is not the abstract-list tag, the
  single-element accessor \<open>Tcl_AbstractListObjIndex\<close> aborts the process with its panic,
  while \<open>Tcl_AbstractListObjGetElements\<close> does not abort: it returns \<open>TCL_ERROR\<close> and
  leaves \<^verbatim>\<open>*objcPtr\<close> and \<^verbatim>\<open>*objvPtr\<close> as they were. The diagnostic (the message
  "value is not an abstract list" with the error code TCL VALUE UNKNOWN) is recorded in
  the interpreter when the caller supplies one; with a NULL interpreter the return code
  is all the caller gets.
\<close>

theorem wrong_type_policies:
  assumes "objs h p = Some ob" and "typePtr ob \<noteq> Some tclAbstractListType"
  shows "Tcl_AbstractListObjIndex E h p i = Inl (Panic ObjIndex_panic)
     \<and> (\<exists>interp'. Tcl_AbstractListObjGetElements E h interp p objc0 objv0 =
            Inr (TCL_ERROR, h, interp', objc0, objv0)
          \<and> (interp = None \<longrightarrow> interp' = None)
          \<and> (\<forall>I. interp = Some I \<longrightarrow>
                interp' = Some (I\<lparr>result := ''value is not an abstract list'',
                                  errorCode := [''TCL'', ''VALUE'', ''UNKNOWN'']\<rparr>)))"
  using assms
  by (simp add: Tcl_AbstractListObjIndex_def Tcl_AbstractListObjGetElements_def deref_obj_def
      TclHasInternalRep_def set_error_def)

theorem wrong_type_policies_witness:
  "objs plain_heap 1 = Some ((string_obj ''abc'')\<lparr>refCount := 1\<rparr>)
   \<and> typePtr ((string_obj ''abc'')\<lparr>refCount := 1\<rparr>) \<noteq> Some tclAbstractListType
   \<and> Tcl_AbstractListObjIndex demo_env plain_heap 1 0 = Inl (Panic ObjIndex_panic)
   \<and> Tcl_AbstractListObjGetElements demo_env plain_heap
        (Some \<lparr>result = [], errorCode = []\<rparr>) 1 7 (Some 9) =
       Inr (TCL_ERROR, plain_heap,
            Some \<lparr>result = ''value is not an abstract list'',
                  errorCode = [''TCL'', ''VALUE'', ''UNKNOWN'']\<rparr>, 7, Some 9)"
proof -
  have a: "objs plain_heap 1 = Some ((string_obj ''abc'')\<lparr>refCount := 1\<rparr>)"
    by (simp add: plain_heap_def)
  have b: "typePtr ((string_obj ''abc'')\<lparr>refCount := 1\<rparr>) \<noteq> Some tclAbstractListType"
    by (simp add: string_obj_def)
  show ?thesis
    using a b wrong_type_policies [OF a b, of demo_env 0
        "Some \<lparr>result = [], errorCode = []\<rparr>" 7 "Some 9"]
    by auto
qed

text \<open>
  The claim as stated fails without an interpreter: a call on a plain string with a NULL
  interpreter returns \<open>TCL_ERROR\<close> and records no diagnostic anywhere.
\<close>

theorem wrong_type_no_interp_counterexample:
  "Tcl_AbstractListObjGetElements demo_env plain_heap None 1 7 (Some 9) =
     Inr (TCL_ERROR, plain_heap, None, 7, Some 9)"
  by (simp add: Tcl_AbstractListObjGetElements_def deref_obj_def TclHasInternalRep_def
      set_error_def plain_heap_def string_obj_def)

subsection \<open>Registration of the operations\<close>

text \<open>
  C9. \<open>Tcl_AbstractListSetProc\<close> returns \<open>TCL_ERROR\<close> and leaves the store, so every
  slot of every operation table, as it is when the value has no abstract-list internal
  representation, and when the slot identifier is none of the six recognized kinds.
  Otherwise, on a value with a header, it returns \<open>TCL_OK\<close>, the requested slot of that
  header holds the given procedure, every other slot and every other field of the header
  is as before, and nothing else in the store changes.
\<close>

theorem Tcl_AbstractListSetProc_slots:
  assumes "objs h p = Some ob"
  shows "(AbstractListGetInternalRep ob = None \<longrightarrow>
            Tcl_AbstractListSetProc h p ptype proc = Inr (TCL_ERROR, h))
     \<and> (AbstractListGetInternalRep ob \<noteq> None \<and> \<not> recognized ptype \<longrightarrow>
            Tcl_AbstractListSetProc h p ptype proc = Inr (TCL_ERROR, h))
     \<and> (\<forall>r rep. AbstractListGetInternalRep ob = Some r \<and> mem h r = Some (RepBlock rep)
            \<and> recognized ptype \<longrightarrow>
          (\<exists>h' rep'. Tcl_AbstractListSetProc h p ptype proc = Inr (TCL_OK, h')
             \<and> objs h' = objs h \<and> brk h' = brk h
             \<and> mem h' r = Some (RepBlock rep')
             \<and> (\<forall>a. a \<noteq> r \<longrightarrow> mem h' a = mem h a)
             \<and> slot ptype rep' = proc
             \<and> (\<forall>q. q \<noteq> ptype \<longrightarrow> slot q rep' = slot q rep)
             \<and> elements rep' = elements rep \<and> abstractValue rep' = abstractValue rep
             \<and> version rep' = version rep \<and> repSize rep' = repSize rep
             \<and> typeName rep' = typeName rep))"
proof (intro conjI allI impI)
  assume "AbstractListGetInternalRep ob = None"
  with assms show "Tcl_AbstractListSetProc h p ptype proc = Inr (TCL_ERROR, h)"
    by (simp add: Tcl_AbstractListSetProc_def deref_obj_def)
next
  assume "AbstractListGetInternalRep ob \<noteq> None \<and> \<not> recognized ptype"
  with assms show "Tcl_AbstractListSetProc h p ptype proc = Inr (TCL_ERROR, h)"
    by (cases ptype) (auto simp: Tcl_AbstractListSetProc_def deref_obj_def)
next
  fix r rep
  assume a: "AbstractListGetInternalRep ob = Some r \<and> mem h r = Some (RepBlock rep)
            \<and> recognized ptype"
  show "\<exists>h' rep'. Tcl_AbstractListSetProc h p ptype proc = Inr (TCL_OK, h')
             \<and> objs h' = objs h \<and> brk h' = brk h
             \<and> mem h' r = Some (RepBlock rep')
             \<and> (\<forall>a. a \<noteq> r \<longrightarrow> mem h' a = mem h a)
             \<and> slot ptype rep' = proc
             \<and> (\<forall>q. q \<noteq> ptype \<longrightarrow> slot q rep' = slot q rep)
             \<and> elements rep' = elements rep \<and> abstractValue rep' = abstractValue rep
             \<and> version rep' = version rep \<and> repSize rep' = repSize rep
             \<and> typeName rep' = typeName rep"
  proof (cases ptype)
    case TCL_ABSL_NEW
    have "\<forall>q. q \<noteq> ptype \<longrightarrow> slot q (rep\<lparr>newObjProc := proc\<rparr>) = slot q rep"
      using TCL_ABSL_NEW by (intro allI impI, case_tac q) simp_all
    then show ?thesis using assms a TCL_ABSL_NEW
      by (simp add: Tcl_AbstractListSetProc_def deref_obj_def store_rep_def deref_rep_def)
  next
    case TCL_ABSL_DUPREP
    have "\<forall>q. q \<noteq> ptype \<longrightarrow> slot q (rep\<lparr>dupRepProc := proc\<rparr>) = slot q rep"
      using TCL_ABSL_DUPREP by (intro allI impI, case_tac q) simp_all
    then show ?thesis using assms a TCL_ABSL_DUPREP
      by (simp add: Tcl_AbstractListSetProc_def deref_obj_def store_rep_def deref_rep_def)
  next
    case TCL_ABSL_LENGTH
    have "\<forall>q. q \<noteq> ptype \<longrightarrow> slot q (rep\<lparr>lengthProc := proc\<rparr>) = slot q rep"
      using TCL_ABSL_LENGTH by (intro allI impI, case_tac q) simp_all
    then show ?thesis using assms a TCL_ABSL_LENGTH
      by (simp add: Tcl_AbstractListSetProc_def deref_obj_def store_rep_def deref_rep_def)
  next
    case TCL_ABSL_INDEX
    have "\<forall>q. q \<noteq> ptype \<longrightarrow> slot q (rep\<lparr>indexProc := proc\<rparr>) = slot q rep"
      using TCL_ABSL_INDEX by (intro allI impI, case_tac q) simp_all
    then show ?thesis using assms a TCL_ABSL_INDEX
      by (simp add: Tcl_AbstractListSetProc_def deref_obj_def store_rep_def deref_rep_def)
  next
    case TCL_ABSL_SLICE
    have "\<forall>q. q \<noteq> ptype \<longrightarrow> slot q (rep\<lparr>sliceProc := proc\<rparr>) = slot q rep"
      using TCL_ABSL_SLICE by (intro allI impI, case_tac q) simp_all
    then show ?thesis using assms a TCL_ABSL_SLICE
      by (simp add: Tcl_AbstractListSetProc_def deref_obj_def store_rep_def deref_rep_def)
  next
    case TCL_ABSL_REVERSE
    have "\<forall>q. q \<noteq> ptype \<longrightarrow> slot q (rep\<lparr>reverseProc := proc\<rparr>) = slot q rep"
      using TCL_ABSL_REVERSE by (intro allI impI, case_tac q) simp_all
    then show ?thesis using assms a TCL_ABSL_REVERSE
      by (simp add: Tcl_AbstractListSetProc_def deref_obj_def store_rep_def deref_rep_def)
  next
    case (TCL_ABSL_unknown k)
    with a show ?thesis by simp
  qed
qed

theorem Tcl_AbstractListSetProc_slots_witness:
  "objs plain_heap 1 = Some ((string_obj ''abc'')\<lparr>refCount := 1\<rparr>)
   \<and> AbstractListGetInternalRep ((string_obj ''abc'')\<lparr>refCount := 1\<rparr>) = None
   \<and> Tcl_AbstractListSetProc plain_heap 1 TCL_ABSL_INDEX (Some 201) = Inr (TCL_ERROR, plain_heap)
   \<and> objs cached_heap 1 = Some series_obj
   \<and> AbstractListGetInternalRep series_obj = Some 2
   \<and> \<not> recognized (TCL_ABSL_unknown 6)
   \<and> Tcl_AbstractListSetProc cached_heap 1 (TCL_ABSL_unknown 6) (Some 201) =
       Inr (TCL_ERROR, cached_heap)
   \<and> mem cached_heap 2 = Some (RepBlock ((series_rep [0, 2, 2])\<lparr>elements := Some 3\<rparr>))
   \<and> recognized TCL_ABSL_INDEX
   \<and> (\<exists>h' rep'. Tcl_AbstractListSetProc cached_heap 1 TCL_ABSL_INDEX (Some 201) = Inr (TCL_OK, h')
         \<and> mem h' 2 = Some (RepBlock rep')
         \<and> indexProc rep' = Some 201 \<and> lengthProc rep' = Some 100
         \<and> dupRepProc rep' = Some 102 \<and> newObjProc rep' = None
         \<and> sliceProc rep' = None \<and> reverseProc rep' = None
         \<and> elements rep' = Some 3)"
proof -
  have a: "objs plain_heap 1 = Some ((string_obj ''abc'')\<lparr>refCount := 1\<rparr>)"
    by (simp add: plain_heap_def)
  have b: "AbstractListGetInternalRep ((string_obj ''abc'')\<lparr>refCount := 1\<rparr>) = None"
    by (simp add: AbstractListGetInternalRep_def TclHasInternalRep_def string_obj_def)
  have c: "objs cached_heap 1 = Some series_obj"
    by (simp add: cached_heap_def)
  have d: "AbstractListGetInternalRep series_obj = Some 2"
    by (simp add: AbstractListGetInternalRep_def TclHasInternalRep_def series_obj_def)
  have e: "mem cached_heap 2 = Some (RepBlock ((series_rep [0, 2, 2])\<lparr>elements := Some 3\<rparr>))"
    by (simp add: cached_heap_def)
  note t1 = Tcl_AbstractListSetProc_slots [OF a, of TCL_ABSL_INDEX "Some 201", THEN conjunct1]
  note t2 = Tcl_AbstractListSetProc_slots [OF c, of "TCL_ABSL_unknown 6" "Some 201",
      THEN conjunct2, THEN conjunct1]
  note t3 = Tcl_AbstractListSetProc_slots [OF c, of TCL_ABSL_INDEX "Some 201",
      THEN conjunct2, THEN conjunct2, rule_format, of 2 "(series_rep [0, 2, 2])\<lparr>elements := Some 3\<rparr>"]
  have s1: "Tcl_AbstractListSetProc plain_heap 1 TCL_ABSL_INDEX (Some 201) = Inr (TCL_ERROR, plain_heap)"
    using t1 b by simp
  have s2: "Tcl_AbstractListSetProc cached_heap 1 (TCL_ABSL_unknown 6) (Some 201) =
       Inr (TCL_ERROR, cached_heap)"
    using t2 d by simp
  obtain h' rep' where s3: "Tcl_AbstractListSetProc cached_heap 1 TCL_ABSL_INDEX (Some 201) = Inr (TCL_OK, h')"
    and m: "mem h' 2 = Some (RepBlock rep')"
    and sl: "slot TCL_ABSL_INDEX rep' = Some 201"
    and ot: "\<forall>q. q \<noteq> TCL_ABSL_INDEX \<longrightarrow> slot q rep' = slot q ((series_rep [0, 2, 2])\<lparr>elements := Some 3\<rparr>)"
    and el: "elements rep' = elements ((series_rep [0, 2, 2])\<lparr>elements := Some 3\<rparr>)"
    using t3 d e by auto
  have o1: "lengthProc rep' = Some 100" using ot [rule_format, of TCL_ABSL_LENGTH]
    by (simp add: series_rep_def)
  have o2: "dupRepProc rep' = Some 102" using ot [rule_format, of TCL_ABSL_DUPREP]
    by (simp add: series_rep_def)
  have o3: "newObjProc rep' = None" using ot [rule_format, of TCL_ABSL_NEW]
    by (simp add: series_rep_def)
  have o4: "sliceProc rep' = None" using ot [rule_format, of TCL_ABSL_SLICE]
    by (simp add: series_rep_def)
  have o5: "reverseProc rep' = None" using ot [rule_format, of TCL_ABSL_REVERSE]
    by (simp add: series_rep_def)
  show ?thesis
    using a b c d e s1 s2 s3 m sl o1 o2 o3 o4 o5 el by auto
qed

subsection \<open>Bulk materialization\<close>

lemma int_of_wide_id: "INT_MIN \<le> n \<Longrightarrow> n \<le> INT_MAX \<Longrightarrow> int_of_wide n = n"
  by (simp add: int_of_wide_def INT_MIN_def INT_MAX_def)

lemma fill_elements_run:
  assumes "mem h r = Some (RepBlock rep)" and "indexProc rep = Some xf"
    and "mem h a = Some (ArrBlock es)" and "r \<noteq> a"
    and "0 \<le> i" and "i \<le> n" and "int (length es) = n"
  shows "\<exists>h' es'. fill_elements E h r a i n = Inr h'
           \<and> mem h' = (mem h)(a \<mapsto> ArrBlock es')
           \<and> brk h' = brk h + nat (n - i)
           \<and> (\<forall>x. x < brk h \<longrightarrow> objs h' x = objs h x)
           \<and> length es' = length es
           \<and> (\<forall>j. 0 \<le> j \<and> j < i \<longrightarrow> es' ! nat j = es ! nat j)
           \<and> (\<forall>j. i \<le> j \<and> j < n \<longrightarrow>
                 es' ! nat j = Some (brk h + nat (j - i))
               \<and> objs h' (brk h + nat (j - i)) =
                   Some ((string_obj (indexFn E xf (abstractValue rep) j))\<lparr>refCount := 1\<rparr>))"
  using assms
proof (induction E h r a i n arbitrary: es rule: fill_elements.induct)
  case (1 E h r objv i objc)
  show ?case
  proof (cases "i < objc")
    case False
    with "1.prems" have eq: "i = objc" by simp
    have run: "fill_elements E h r objv i objc = Inr h"
      using False by (simp add: fill_elements.simps [of E h r objv i objc])
    have m: "mem h = (mem h)(objv \<mapsto> ArrBlock es)"
      using "1.prems" by (simp add: fun_upd_idem)
    show ?thesis
      apply (rule exI [of _ h], rule exI [of _ es])
      using run m eq by auto
  next
    case True
    let ?s = "indexFn E xf (abstractValue rep) i"
    let ?el = "(string_obj ?s)\<lparr>refCount := 1\<rparr>"
    let ?es1 = "es[nat i := Some (brk h)]"
    let ?h1 = "h\<lparr>objs := (objs h)(brk h \<mapsto> string_obj ?s), brk := Suc (brk h)\<rparr>"
    let ?h2 = "?h1\<lparr>mem := (mem ?h1)(objv \<mapsto> ArrBlock ?es1)\<rparr>"
    let ?h3 = "?h2\<lparr>objs := (objs ?h2)(brk h \<mapsto> (string_obj ?s)\<lparr>refCount := refCount (string_obj ?s) + 1\<rparr>)\<rparr>"
    have dr: "deref_rep h (Some r) = Inr rep"
      using "1.prems" by (simp add: deref_rep_def)
    have idx: "call_indexProc E h rep i = Inr (brk h, ?h1)"
      using "1.prems" by (simp add: call_indexProc_def alloc_obj_def)
    have inb: "nat i < length es" using True "1.prems" by linarith
    have st: "store_elem ?h1 objv i (Some (brk h)) = Inr ?h2"
      using "1.prems" inb by (simp add: store_elem_def deref_arr_def)
    have inc: "Tcl_IncrRefCount ?h2 (brk h) = Inr ?h3"
      by (simp add: Tcl_IncrRefCount_def)
    have step: "fill_elements E h r objv i objc = fill_elements E ?h3 r objv (i + 1) objc"
      using True dr idx st inc
      by (simp add: fill_elements.simps [of E h r objv i objc])
    have "\<exists>h' es'. fill_elements E ?h3 r objv (i + 1) objc = Inr h'
           \<and> mem h' = (mem ?h3)(objv \<mapsto> ArrBlock es')
           \<and> brk h' = brk ?h3 + nat (objc - (i + 1))
           \<and> (\<forall>x. x < brk ?h3 \<longrightarrow> objs h' x = objs ?h3 x)
           \<and> length es' = length ?es1
           \<and> (\<forall>j. 0 \<le> j \<and> j < i + 1 \<longrightarrow> es' ! nat j = ?es1 ! nat j)
           \<and> (\<forall>j. i + 1 \<le> j \<and> j < objc \<longrightarrow>
                 es' ! nat j = Some (brk ?h3 + nat (j - (i + 1)))
               \<and> objs h' (brk ?h3 + nat (j - (i + 1))) =
                   Some ((string_obj (indexFn E xf (abstractValue rep) j))\<lparr>refCount := 1\<rparr>))"
      using "1.prems" True
      by (intro "1.IH" [OF True dr idx refl st inc]) simp_all
    then obtain h' es' where
      run: "fill_elements E ?h3 r objv (i + 1) objc = Inr h'"
      and m: "mem h' = (mem ?h3)(objv \<mapsto> ArrBlock es')"
      and b: "brk h' = brk ?h3 + nat (objc - (i + 1))"
      and fr: "\<forall>x. x < brk ?h3 \<longrightarrow> objs h' x = objs ?h3 x"
      and len: "length es' = length ?es1"
      and low: "\<forall>j. 0 \<le> j \<and> j < i + 1 \<longrightarrow> es' ! nat j = ?es1 ! nat j"
      and high: "\<forall>j. i + 1 \<le> j \<and> j < objc \<longrightarrow>
                 es' ! nat j = Some (brk ?h3 + nat (j - (i + 1)))
               \<and> objs h' (brk ?h3 + nat (j - (i + 1))) =
                   Some ((string_obj (indexFn E xf (abstractValue rep) j))\<lparr>refCount := 1\<rparr>)"
      by blast
    have c1: "mem h' = (mem h)(objv \<mapsto> ArrBlock es')" using m by simp
    have c2: "brk h' = brk h + nat (objc - i)" using b True by simp
    have c3: "\<forall>x. x < brk h \<longrightarrow> objs h' x = objs h x" using fr by simp
    have c4: "length es' = length es" using len by simp
    have c5: "\<forall>j. 0 \<le> j \<and> j < i \<longrightarrow> es' ! nat j = es ! nat j"
    proof (intro allI impI)
      fix j :: int assume j: "0 \<le> j \<and> j < i"
      then have "nat j \<noteq> nat i" by linarith
      with low j show "es' ! nat j = es ! nat j" by simp
    qed
    have c6: "\<forall>j. i \<le> j \<and> j < objc \<longrightarrow>
                 es' ! nat j = Some (brk h + nat (j - i))
               \<and> objs h' (brk h + nat (j - i)) =
                   Some ((string_obj (indexFn E xf (abstractValue rep) j))\<lparr>refCount := 1\<rparr>)"
    proof (intro allI impI)
      fix j :: int assume j: "i \<le> j \<and> j < objc"
      show "es' ! nat j = Some (brk h + nat (j - i))
               \<and> objs h' (brk h + nat (j - i)) =
                   Some ((string_obj (indexFn E xf (abstractValue rep) j))\<lparr>refCount := 1\<rparr>)"
      proof (cases "j = i")
        case True
        have "es' ! nat i = ?es1 ! nat i" using low "1.prems" by simp
        moreover have "objs h' (brk h) = objs ?h3 (brk h)" using fr by simp
        ultimately show ?thesis using True inb by (simp add: string_obj_def)
      next
        case False
        with j have j1: "i + 1 \<le> j \<and> j < objc" by simp
        have "Suc (nat (j - (i + 1))) = nat (j - i)" using j1 by linarith
        then have "brk ?h3 + nat (j - (i + 1)) = brk h + nat (j - i)" by simp
        with high j1 show ?thesis by metis
      qed
    qed
    show ?thesis
      apply (rule exI [of _ h'], rule exI [of _ es'])
      using step run c1 c2 c3 c4 c5 c6 by simp
  qed
qed

text \<open>
  C10, as amended. When the length the subtype returns, taken as the \<^verbatim>\<open>int\<close> the
  function keeps it in, is \<open>n \<le> 0\<close>, \<open>Tcl_AbstractListObjGetElements\<close> returns \<open>TCL_OK\<close>
  with \<^verbatim>\<open>*objvPtr\<close> NULL and \<^verbatim>\<open>*objcPtr\<close> that \<open>n\<close>, and the store is as before:
  nothing is allocated and no cache installed. In particular this holds with
  \<^verbatim>\<open>*objcPtr\<close> the returned length itself for every returned length from \<open>INT_MIN\<close>
  to \<open>0\<close>.
\<close>

theorem GetElements_nonpositive_length:
  assumes "objs h p = Some ob" and "typePtr ob = Some tclAbstractListType"
    and "ptr1 ob = Some r" and "mem h r = Some (RepBlock rep)"
    and "lengthProc rep = Some lf" and "lengthFn E lf (abstractValue rep) = n"
  shows "(int_of_wide n \<le> 0 \<longrightarrow>
            Tcl_AbstractListObjGetElements E h interp p objc0 objv0 =
              Inr (TCL_OK, h, interp, int_of_wide n, None))
       \<and> (INT_MIN \<le> n \<and> n \<le> 0 \<longrightarrow>
            Tcl_AbstractListObjGetElements E h interp p objc0 objv0 =
              Inr (TCL_OK, h, interp, n, None))"
proof -
  have a: "int_of_wide n \<le> 0 \<Longrightarrow>
            Tcl_AbstractListObjGetElements E h interp p objc0 objv0 =
              Inr (TCL_OK, h, interp, int_of_wide n, None)"
    using assms
    by (simp add: Tcl_AbstractListObjGetElements_def deref_obj_def TclHasInternalRep_def
        AbstractListGetInternalRep_def deref_rep_def call_lengthProc_def Let_def)
  have b: "INT_MIN \<le> n \<and> n \<le> 0 \<Longrightarrow> int_of_wide n = n"
    by (rule int_of_wide_id) (simp_all add: INT_MAX_def)
  show ?thesis using a b by auto
qed

theorem GetElements_nonpositive_length_witness:
  "objs (series_heap [0, 2, - 3]) 1 = Some series_obj
   \<and> typePtr series_obj = Some tclAbstractListType \<and> ptr1 series_obj = Some 2
   \<and> mem (series_heap [0, 2, - 3]) 2 = Some (RepBlock (series_rep [0, 2, - 3]))
   \<and> lengthProc (series_rep [0, 2, - 3]) = Some 100
   \<and> lengthFn demo_env 100 (abstractValue (series_rep [0, 2, - 3])) = - 3
   \<and> int_of_wide (- 3) \<le> 0 \<and> INT_MIN \<le> - 3 \<and> (- 3 :: int) \<le> 0
   \<and> Tcl_AbstractListObjGetElements demo_env (series_heap [0, 2, - 3]) None 1 7 (Some 9) =
        Inr (TCL_OK, series_heap [0, 2, - 3], None, - 3, None)"
proof -
  have a: "objs (series_heap [0, 2, - 3]) 1 = Some series_obj"
    by (simp add: series_heap_def)
  have b: "typePtr series_obj = Some tclAbstractListType" by (simp add: series_obj_def)
  have c: "ptr1 series_obj = Some 2" by (simp add: series_obj_def)
  have d: "mem (series_heap [0, 2, - 3]) 2 = Some (RepBlock (series_rep [0, 2, - 3]))"
    by (simp add: series_heap_def)
  have e: "lengthProc (series_rep [0, 2, - 3]) = Some 100" by (simp add: series_rep_def)
  have f: "lengthFn demo_env 100 (abstractValue (series_rep [0, 2, - 3])) = - 3"
    by (simp add: demo_env_def series_rep_def series_length_def)
  have g: "int_of_wide (- 3) \<le> 0 \<and> INT_MIN \<le> - 3 \<and> (- 3 :: int) \<le> 0"
    by (simp add: int_of_wide_def INT_MIN_def)
  show ?thesis
    using a b c d e f g GetElements_nonpositive_length [OF a b c d e f, of None 7 "Some 9"]
    by (simp add: int_of_wide_def)
qed

text \<open>
  The claim as stated fails for a length below \<open>INT_MIN\<close>: the length \<open>- 2 ^ 32\<close> is
  stored as the count \<open>0\<close>.
\<close>

theorem GetElements_wide_length_counterexample:
  "lengthFn demo_env 100 (abstractValue (series_rep [0, 2, - 4294967296])) = - 4294967296
   \<and> Tcl_AbstractListObjGetElements demo_env (series_heap [0, 2, - 4294967296]) None 1 7 (Some 9) =
        Inr (TCL_OK, series_heap [0, 2, - 4294967296], None, 0, None)"
  by (simp add: Tcl_AbstractListObjGetElements_def deref_obj_def TclHasInternalRep_def
      AbstractListGetInternalRep_def deref_rep_def call_lengthProc_def Let_def
      series_heap_def series_obj_def series_rep_def demo_env_def series_length_def int_of_wide_def)

lemma GetElements_cached:
  assumes "objs h p = Some ob" and "typePtr ob = Some tclAbstractListType"
    and "ptr1 ob = Some r" and "mem h r = Some (RepBlock rep)"
    and "lengthProc rep = Some lf" and "elements rep = Some a"
    and "0 < int_of_wide (lengthFn E lf (abstractValue rep))"
  shows "Tcl_AbstractListObjGetElements E h interp p objc0 objv0 =
           Inr (TCL_OK, h, interp, int_of_wide (lengthFn E lf (abstractValue rep)), Some a)"
  using assms
  by (simp add: Tcl_AbstractListObjGetElements_def deref_obj_def TclHasInternalRep_def
      AbstractListGetInternalRep_def deref_rep_def call_lengthProc_def Let_def)

lemma GetElements_fresh:
  assumes "objs h p = Some ob" and "typePtr ob = Some tclAbstractListType"
    and "ptr1 ob = Some r" and "mem h r = Some (RepBlock rep)"
    and "lengthProc rep = Some lf" and "indexProc rep = Some xf"
    and "elements rep = None" and "r < brk h"
    and "objc = int_of_wide (lengthFn E lf (abstractValue rep))" and "0 < objc"
    and "sizeof_ptr E * nat objc \<le> alloc_limit E"
  shows "\<exists>h' es'. Tcl_AbstractListObjGetElements E h interp p objc0 objv0 =
             Inr (TCL_OK, h', interp, objc, Some (brk h))
           \<and> mem h' = (mem h)(r \<mapsto> RepBlock (rep\<lparr>elements := Some (brk h)\<rparr>),
                               brk h \<mapsto> ArrBlock es')
           \<and> brk h' = Suc (brk h) + nat objc
           \<and> (\<forall>x. x < brk h \<longrightarrow> objs h' x = objs h x)
           \<and> length es' = nat objc
           \<and> (\<forall>j. 0 \<le> j \<and> j < objc \<longrightarrow>
                 es' ! nat j = Some (Suc (brk h) + nat j)
               \<and> objs h' (Suc (brk h) + nat j) =
                   Some ((string_obj (indexFn E xf (abstractValue rep) j))\<lparr>refCount := 1\<rparr>))"
proof -
  let ?a = "brk h"
  let ?rep' = "rep\<lparr>elements := Some ?a\<rparr>"
  let ?es = "replicate (nat objc) (None :: addr option)"
  let ?h1 = "h\<lparr>mem := (mem h)(?a \<mapsto> ArrBlock ?es), brk := Suc ?a\<rparr>"
  let ?h2 = "?h1\<lparr>mem := (mem ?h1)(r \<mapsto> RepBlock ?rep')\<rparr>"
  have ra: "r \<noteq> ?a" using assms by simp
  have al: "ckalloc E h (sizeof_ptr E * nat objc) (ArrBlock ?es) = Some (?a, ?h1)"
    using assms by (simp add: ckalloc_def)
  have "\<exists>h' es'. fill_elements E ?h2 r ?a 0 objc = Inr h'
           \<and> mem h' = (mem ?h2)(?a \<mapsto> ArrBlock es')
           \<and> brk h' = brk ?h2 + nat (objc - 0)
           \<and> (\<forall>x. x < brk ?h2 \<longrightarrow> objs h' x = objs ?h2 x)
           \<and> length es' = length ?es
           \<and> (\<forall>j. 0 \<le> j \<and> j < 0 \<longrightarrow> es' ! nat j = ?es ! nat j)
           \<and> (\<forall>j. 0 \<le> j \<and> j < objc \<longrightarrow>
                 es' ! nat j = Some (brk ?h2 + nat (j - 0))
               \<and> objs h' (brk ?h2 + nat (j - 0)) =
                   Some ((string_obj (indexFn E xf (abstractValue ?rep') j))\<lparr>refCount := 1\<rparr>))"
    using assms ra by (intro fill_elements_run) simp_all
  then obtain h' es' where
    run: "fill_elements E ?h2 r ?a 0 objc = Inr h'"
    and m: "mem h' = (mem ?h2)(?a \<mapsto> ArrBlock es')"
    and b: "brk h' = brk ?h2 + nat (objc - 0)"
    and fr: "\<forall>x. x < brk ?h2 \<longrightarrow> objs h' x = objs ?h2 x"
    and len: "length es' = length ?es"
    and high: "\<forall>j. 0 \<le> j \<and> j < objc \<longrightarrow>
                 es' ! nat j = Some (brk ?h2 + nat (j - 0))
               \<and> objs h' (brk ?h2 + nat (j - 0)) =
                   Some ((string_obj (indexFn E xf (abstractValue ?rep') j))\<lparr>refCount := 1\<rparr>)"
    by blast
  have res: "Tcl_AbstractListObjGetElements E h interp p objc0 objv0 =
             Inr (TCL_OK, h', interp, objc, Some ?a)"
    using assms al run
    by (simp add: Tcl_AbstractListObjGetElements_def deref_obj_def TclHasInternalRep_def
        AbstractListGetInternalRep_def deref_rep_def call_lengthProc_def Let_def)
  have m': "mem h' = (mem h)(r \<mapsto> RepBlock ?rep', ?a \<mapsto> ArrBlock es')"
    using m ra by (simp add: fun_upd_twist)
  show ?thesis
    apply (rule exI [of _ h'], rule exI [of _ es'])
    using res m' b fr len high by simp
qed

lemma series_obj_facts:
  "typePtr series_obj = Some tclAbstractListType" "ptr1 series_obj = Some 2"
  by (simp_all add: series_obj_def)

lemma dec_int_digit: "0 \<le> k \<Longrightarrow> k < 10 \<Longrightarrow> dec_int k = [''0123456789'' ! nat k]"
proof -
  assume "0 \<le> k" and "k < 10"
  then have "nat k < 10" by linarith
  with \<open>0 \<le> k\<close> show ?thesis by (simp add: dec_int_def dec_nat.simps [of "nat k"])
qed

lemma GetElements_fresh_entries:
  assumes "objs h p = Some ob" and "typePtr ob = Some tclAbstractListType"
    and "ptr1 ob = Some r" and "mem h r = Some (RepBlock rep)"
    and "lengthProc rep = Some lf" and "indexProc rep = Some xf"
    and "lengthFn E lf (abstractValue rep) = N" and "0 \<le> N" and "N \<le> INT_MAX"
    and "elements rep = None" and "r < brk h"
    and "sizeof_ptr E * nat N \<le> alloc_limit E"
  shows "\<exists>h' objv. Tcl_AbstractListObjGetElements E h interp p objc0 objv0 =
             Inr (TCL_OK, h', interp, N, objv)
           \<and> (\<forall>i<nat N. entry h' objv i =
                 Some ((string_obj (indexFn E xf (abstractValue rep) (int i)))\<lparr>refCount := 1\<rparr>))"
proof (cases "N = 0")
  case True
  have "int_of_wide N = 0" using True by (simp add: int_of_wide_def)
  then have "Tcl_AbstractListObjGetElements E h interp p objc0 objv0 =
             Inr (TCL_OK, h, interp, N, None)"
    using assms True
    by (simp add: Tcl_AbstractListObjGetElements_def deref_obj_def TclHasInternalRep_def
        AbstractListGetInternalRep_def deref_rep_def call_lengthProc_def Let_def)
  then show ?thesis using True by simp
next
  case False
  have w: "int_of_wide N = N"
    using assms by (intro int_of_wide_id) (simp_all add: INT_MIN_def)
  have pos: "0 < N" using False assms by simp
  obtain h' es' where
    res: "Tcl_AbstractListObjGetElements E h interp p objc0 objv0 =
             Inr (TCL_OK, h', interp, N, Some (brk h))"
    and m: "mem h' = (mem h)(r \<mapsto> RepBlock (rep\<lparr>elements := Some (brk h)\<rparr>),
                               brk h \<mapsto> ArrBlock es')"
    and len: "length es' = nat N"
    and high: "\<forall>j. 0 \<le> j \<and> j < N \<longrightarrow>
                 es' ! nat j = Some (Suc (brk h) + nat j)
               \<and> objs h' (Suc (brk h) + nat j) =
                   Some ((string_obj (indexFn E xf (abstractValue rep) j))\<lparr>refCount := 1\<rparr>)"
    using GetElements_fresh [OF assms(1-6) assms(10,11), of N E interp objc0 objv0] assms w pos
    by auto
  have "\<forall>i<nat N. entry h' (Some (brk h)) i =
                 Some ((string_obj (indexFn E xf (abstractValue rep) (int i)))\<lparr>refCount := 1\<rparr>)"
  proof (intro allI impI)
    fix i assume i: "i < nat N"
    then have "0 \<le> int i \<and> int i < N" by simp
    with high have "es' ! nat (int i) = Some (Suc (brk h) + nat (int i))
               \<and> objs h' (Suc (brk h) + nat (int i)) =
                   Some ((string_obj (indexFn E xf (abstractValue rep) (int i)))\<lparr>refCount := 1\<rparr>)"
      by blast
    with i len m show "entry h' (Some (brk h)) i =
                 Some ((string_obj (indexFn E xf (abstractValue rep) (int i)))\<lparr>refCount := 1\<rparr>)"
      by (simp add: entry_def)
  qed
  with res show ?thesis by blast
qed


text \<open>
  C3, as amended. For every abstract-list value whose length operation returns \<open>N\<close>
  with \<open>0 \<le> N \<le> INT_MAX\<close>, whose element cache is absent and for which the allocator
  grants the array of \<open>N\<close> pointers, \<open>Tcl_AbstractListObjGetElements\<close> succeeds with a
  count of exactly \<open>N\<close>, and for every \<open>i\<close> in \<open>[0, N)\<close> the \<open>i\<close>-th returned entry is
  the value the index operation produces at position \<open>i\<close>, held with one reference.
  (With a cache present the cached array is returned as it is: C6.)
\<close>

theorem GetElements_materializes:
  assumes "objs h p = Some ob" and "typePtr ob = Some tclAbstractListType"
    and "ptr1 ob = Some r" and "mem h r = Some (RepBlock rep)"
    and "lengthProc rep = Some lf" and "indexProc rep = Some xf"
    and "lengthFn E lf (abstractValue rep) = N" and "0 \<le> N" and "N \<le> INT_MAX"
    and "elements rep = None" and "r < brk h"
    and "sizeof_ptr E * nat N \<le> alloc_limit E"
  shows "Tcl_AbstractListObjLength E h p = Inr N
       \<and> (\<exists>h' objv. Tcl_AbstractListObjGetElements E h interp p objc0 objv0 =
             Inr (TCL_OK, h', interp, N, objv)
           \<and> (\<forall>i<nat N. entry h' objv i =
                 Some ((string_obj (indexFn E xf (abstractValue rep) (int i)))\<lparr>refCount := 1\<rparr>)))"
proof -
  have "Tcl_AbstractListObjLength E h p = Inr N"
    using assms(1-5,7)
    by (simp add: Tcl_AbstractListObjLength_def deref_obj_def AbstractListGetInternalRep_def
        TclHasInternalRep_def deref_rep_def call_lengthProc_def)
  with GetElements_fresh_entries [OF assms, of interp objc0 objv0] show ?thesis by simp
qed

theorem GetElements_materializes_witness:
  "objs (series_heap [0, 2, 3]) 1 = Some series_obj
   \<and> typePtr series_obj = Some tclAbstractListType \<and> ptr1 series_obj = Some 2
   \<and> mem (series_heap [0, 2, 3]) 2 = Some (RepBlock (series_rep [0, 2, 3]))
   \<and> lengthProc (series_rep [0, 2, 3]) = Some 100
   \<and> indexProc (series_rep [0, 2, 3]) = Some 101
   \<and> lengthFn demo_env 100 (abstractValue (series_rep [0, 2, 3])) = 3
   \<and> (0 :: int) \<le> 3 \<and> 3 \<le> INT_MAX
   \<and> elements (series_rep [0, 2, 3]) = None
   \<and> 2 < brk (series_heap [0, 2, 3])
   \<and> sizeof_ptr demo_env * nat 3 \<le> alloc_limit demo_env
   \<and> Tcl_AbstractListObjLength demo_env (series_heap [0, 2, 3]) 1 = Inr 3
   \<and> (\<exists>h' objv. Tcl_AbstractListObjGetElements demo_env (series_heap [0, 2, 3]) None 1 7 None =
             Inr (TCL_OK, h', None, 3, objv)
           \<and> entry h' objv 0 = Some ((string_obj ''0'')\<lparr>refCount := 1\<rparr>)
           \<and> entry h' objv 1 = Some ((string_obj ''2'')\<lparr>refCount := 1\<rparr>)
           \<and> entry h' objv 2 = Some ((string_obj ''4'')\<lparr>refCount := 1\<rparr>))"
proof -
  have a: "objs (series_heap [0, 2, 3]) 1 = Some series_obj"
    by (simp add: series_heap_def)
  have d: "mem (series_heap [0, 2, 3]) 2 = Some (RepBlock (series_rep [0, 2, 3]))"
    by (simp add: series_heap_def)
  have e: "lengthProc (series_rep [0, 2, 3]) = Some 100" by (simp add: series_rep_def)
  have f: "indexProc (series_rep [0, 2, 3]) = Some 101" by (simp add: series_rep_def)
  have g: "lengthFn demo_env 100 (abstractValue (series_rep [0, 2, 3])) = 3"
    by (simp add: demo_env_def series_rep_def series_length_def)
  have i: "(0 :: int) \<le> 3" by simp
  have j: "3 \<le> INT_MAX" by (simp add: INT_MAX_def)
  have k: "elements (series_rep [0, 2, 3]) = None" by (simp add: series_rep_def)
  have l: "2 < brk (series_heap [0, 2, 3])" by (simp add: series_heap_def)
  have m: "sizeof_ptr demo_env * nat 3 \<le> alloc_limit demo_env" by (simp add: demo_env_def)
  have x: "indexFn demo_env 101 (abstractValue (series_rep [0, 2, 3])) (int 0) = ''0''"
    "indexFn demo_env 101 (abstractValue (series_rep [0, 2, 3])) (int 1) = ''2''"
    "indexFn demo_env 101 (abstractValue (series_rep [0, 2, 3])) (int 2) = ''4''"
    by (simp_all add: demo_env_def series_rep_def series_index_def dec_int_digit)
  note main = GetElements_materializes [OF a series_obj_facts d e f g i j k l m, of None 7 None]
  have len: "Tcl_AbstractListObjLength demo_env (series_heap [0, 2, 3]) 1 = Inr 3"
    using main by simp
  obtain h' objv where
    r: "Tcl_AbstractListObjGetElements demo_env (series_heap [0, 2, 3]) None 1 7 None =
             Inr (TCL_OK, h', None, 3, objv)"
    and en: "\<forall>i<nat 3. entry h' objv i =
        Some ((string_obj (indexFn demo_env 101 (abstractValue (series_rep [0, 2, 3])) (int i)))
               \<lparr>refCount := 1\<rparr>)"
    using main by blast
  have e0: "entry h' objv 0 = Some ((string_obj ''0'')\<lparr>refCount := 1\<rparr>)"
    using en [rule_format, of 0] x by simp
  have e1: "entry h' objv 1 = Some ((string_obj ''2'')\<lparr>refCount := 1\<rparr>)"
    using en [rule_format, of 1] x by simp
  have e2: "entry h' objv 2 = Some ((string_obj ''4'')\<lparr>refCount := 1\<rparr>)"
    using en [rule_format, of 2] x by simp
  show ?thesis
    using a series_obj_facts d e f g j k l m len r e0 e1 e2 by auto
qed

text \<open>
  The claim as stated fails in three ways. A length of \<open>2 ^ 31\<close> is kept in an \<^verbatim>\<open>int\<close>
  as \<open>- 2 ^ 31\<close>, and the call returns that count with no array. A length of 1000 asks
  for more than the allocator grants here, and the call returns \<open>TCL_ERROR\<close>. And once
  another index procedure is registered on a value whose cache is filled, the call
  returns the cached entries, which are not what the index operation gives.
\<close>

theorem GetElements_materializes_counterexample:
  "lengthFn demo_env 100 (abstractValue (series_rep [0, 2, 2147483648])) = 2147483648
   \<and> Tcl_AbstractListObjGetElements demo_env (series_heap [0, 2, 2147483648]) None 1 7 None =
        Inr (TCL_OK, series_heap [0, 2, 2147483648], None, - 2147483648, None)
   \<and> lengthFn demo_env 100 (abstractValue (series_rep [0, 2, 1000])) = 1000
   \<and> Tcl_AbstractListObjGetElements demo_env (series_heap [0, 2, 1000]) None 1 7 None =
        Inr (TCL_ERROR, series_heap [0, 2, 1000], None, 7, None)
   \<and> Tcl_AbstractListSetProc cached_heap 1 TCL_ABSL_INDEX (Some 201) = Inr (TCL_OK, stale_heap)
   \<and> Tcl_AbstractListObjGetElements demo_env stale_heap None 1 7 None =
        Inr (TCL_OK, stale_heap, None, 2, Some 3)
   \<and> entry stale_heap (Some 3) 0 = Some ((string_obj ''0'')\<lparr>refCount := 1\<rparr>)
   \<and> indexFn demo_env 201 [0, 2, 2] 0 = []"
proof -
  have a: "Tcl_AbstractListObjGetElements demo_env (series_heap [0, 2, 2147483648]) None 1 7 None =
        Inr (TCL_OK, series_heap [0, 2, 2147483648], None, - 2147483648, None)"
    by (simp add: Tcl_AbstractListObjGetElements_def deref_obj_def TclHasInternalRep_def
        AbstractListGetInternalRep_def deref_rep_def call_lengthProc_def Let_def
        series_heap_def series_obj_def series_rep_def demo_env_def series_length_def
        int_of_wide_def)
  have b: "Tcl_AbstractListObjGetElements demo_env (series_heap [0, 2, 1000]) None 1 7 None =
        Inr (TCL_ERROR, series_heap [0, 2, 1000], None, 7, None)"
    by (simp add: Tcl_AbstractListObjGetElements_def deref_obj_def TclHasInternalRep_def
        AbstractListGetInternalRep_def deref_rep_def call_lengthProc_def Let_def
        series_heap_def series_obj_def series_rep_def demo_env_def series_length_def
        int_of_wide_def ckalloc_def set_error_def)
  have c: "Tcl_AbstractListSetProc cached_heap 1 TCL_ABSL_INDEX (Some 201) = Inr (TCL_OK, stale_heap)"
    by (simp add: Tcl_AbstractListSetProc_def deref_obj_def TclHasInternalRep_def
        AbstractListGetInternalRep_def deref_rep_def store_rep_def stale_heap_def
        cached_heap_def series_obj_def series_rep_def)
  have d: "Tcl_AbstractListObjGetElements demo_env stale_heap None 1 7 None =
        Inr (TCL_OK, stale_heap, None, 2, Some 3)"
    by (simp add: Tcl_AbstractListObjGetElements_def deref_obj_def TclHasInternalRep_def
        AbstractListGetInternalRep_def deref_rep_def call_lengthProc_def Let_def
        stale_heap_def cached_heap_def series_obj_def series_rep_def demo_env_def
        series_length_def int_of_wide_def)
  have e: "entry stale_heap (Some 3) 0 = Some ((string_obj ''0'')\<lparr>refCount := 1\<rparr>)"
    by (simp add: entry_def stale_heap_def cached_heap_def)
  show ?thesis
    using a b c d e
    by (simp add: demo_env_def series_rep_def series_length_def blanks_index_def)
qed

text \<open>
  C6, as amended. Bulk materialization fills the cache of a header at most once. When
  the length, as the \<^verbatim>\<open>int\<close> the function keeps it in, is positive and
  \<open>Tcl_AbstractListObjGetElements\<close> finds a cache present, it returns that array with
  the count and leaves the whole store as it is: no index call, no write to the cache.
  And after any successful call, a second call on the resulting store returns the same
  count and the same array and changes nothing. The value and its header lie below the
  allocation frontier.
\<close>

theorem GetElements_idempotent:
  assumes "objs h p = Some ob" and "typePtr ob = Some tclAbstractListType"
    and "ptr1 ob = Some r" and "mem h r = Some (RepBlock rep)"
    and "p < brk h" and "r < brk h"
  shows "(\<forall>a lf. elements rep = Some a \<and> lengthProc rep = Some lf
             \<and> 0 < int_of_wide (lengthFn E lf (abstractValue rep)) \<longrightarrow>
            Tcl_AbstractListObjGetElements E h interp p objc0 objv0 =
              Inr (TCL_OK, h, interp, int_of_wide (lengthFn E lf (abstractValue rep)), Some a))
       \<and> (\<forall>h' interp' objc objv.
            Tcl_AbstractListObjGetElements E h interp p objc0 objv0 =
              Inr (TCL_OK, h', interp', objc, objv) \<longrightarrow>
            (\<forall>objc1 objv1. Tcl_AbstractListObjGetElements E h' interp' p objc1 objv1 =
              Inr (TCL_OK, h', interp', objc, objv)))"
proof (intro conjI allI impI)
  fix a lf
  assume "elements rep = Some a \<and> lengthProc rep = Some lf
             \<and> 0 < int_of_wide (lengthFn E lf (abstractValue rep))"
  then show "Tcl_AbstractListObjGetElements E h interp p objc0 objv0 =
              Inr (TCL_OK, h, interp, int_of_wide (lengthFn E lf (abstractValue rep)), Some a)"
    using assms by (intro GetElements_cached) simp_all
next
  fix h' interp' objc objv objc1 objv1
  assume first: "Tcl_AbstractListObjGetElements E h interp p objc0 objv0 =
              Inr (TCL_OK, h', interp', objc, objv)"
  show "Tcl_AbstractListObjGetElements E h' interp' p objc1 objv1 =
              Inr (TCL_OK, h', interp', objc, objv)"
  proof (cases "lengthProc rep")
    case None
    with first assms show ?thesis
      by (simp add: Tcl_AbstractListObjGetElements_def deref_obj_def TclHasInternalRep_def
          AbstractListGetInternalRep_def deref_rep_def call_lengthProc_def)
  next
    case (Some lf)
    let ?n = "int_of_wide (lengthFn E lf (abstractValue rep))"
    show ?thesis
    proof (cases "0 < ?n")
      case False
      with first assms Some show ?thesis
        by (simp add: Tcl_AbstractListObjGetElements_def deref_obj_def TclHasInternalRep_def
            AbstractListGetInternalRep_def deref_rep_def call_lengthProc_def Let_def)
    next
      case True
      show ?thesis
      proof (cases "elements rep")
        case (Some a)
        have "Tcl_AbstractListObjGetElements E h interp p objc0 objv0 =
              Inr (TCL_OK, h, interp, ?n, Some a)"
          using assms \<open>lengthProc rep = Some lf\<close> Some True by (intro GetElements_cached) simp_all
        with first have e: "h' = h \<and> interp' = interp \<and> objc = ?n \<and> objv = Some a" by simp
        have "Tcl_AbstractListObjGetElements E h interp p objc1 objv1 =
              Inr (TCL_OK, h, interp, ?n, Some a)"
          using assms \<open>lengthProc rep = Some lf\<close> Some True by (intro GetElements_cached) simp_all
        with e show ?thesis by simp
      next
        case None
        show ?thesis
        proof (cases "sizeof_ptr E * nat ?n \<le> alloc_limit E")
          case False
          with first assms \<open>lengthProc rep = Some lf\<close> None True show ?thesis
            by (simp add: Tcl_AbstractListObjGetElements_def deref_obj_def TclHasInternalRep_def
                AbstractListGetInternalRep_def deref_rep_def call_lengthProc_def Let_def
                ckalloc_def)
        next
          case granted: True
          show ?thesis
          proof (cases "indexProc rep")
            case no_index: None
            have "fill_elements E hh r a 0 ?n = Inl MemoryFault"
              if "mem hh r = Some (RepBlock (rep\<lparr>elements := Some a\<rparr>))" for hh a
              using that True no_index
              by (simp add: fill_elements.simps [of E hh r a 0 ?n] deref_rep_def
                  call_indexProc_def)
            with first assms \<open>lengthProc rep = Some lf\<close> None True granted show ?thesis
              by (simp add: Tcl_AbstractListObjGetElements_def deref_obj_def TclHasInternalRep_def
                  AbstractListGetInternalRep_def deref_rep_def call_lengthProc_def Let_def
                  ckalloc_def)
          next
            case (Some xf)
            obtain h2 es' where
              res: "Tcl_AbstractListObjGetElements E h interp p objc0 objv0 =
                      Inr (TCL_OK, h2, interp, ?n, Some (brk h))"
              and m: "mem h2 = (mem h)(r \<mapsto> RepBlock (rep\<lparr>elements := Some (brk h)\<rparr>),
                               brk h \<mapsto> ArrBlock es')"
              and fr: "\<forall>x. x < brk h \<longrightarrow> objs h2 x = objs h x"
              using GetElements_fresh [OF assms(1-4) \<open>lengthProc rep = Some lf\<close> Some None
                  assms(6) refl True granted, of interp objc0 objv0]
              by auto
            from first res have e: "h' = h2 \<and> interp' = interp \<and> objc = ?n \<and> objv = Some (brk h)"
              by simp
            have o: "objs h2 p = Some ob" using fr assms by simp
            have mr: "mem h2 r = Some (RepBlock (rep\<lparr>elements := Some (brk h)\<rparr>))"
              using m assms by simp
            have "Tcl_AbstractListObjGetElements E h2 interp p objc1 objv1 =
              Inr (TCL_OK, h2, interp,
                   int_of_wide (lengthFn E lf (abstractValue (rep\<lparr>elements := Some (brk h)\<rparr>))),
                   Some (brk h))"
              using o assms(2,3) mr \<open>lengthProc rep = Some lf\<close> True
              by (intro GetElements_cached) simp_all
            with e show ?thesis by simp
          qed
        qed
      qed
    qed
  qed
qed

theorem GetElements_idempotent_witness:
  "objs cached_heap 1 = Some series_obj
   \<and> typePtr series_obj = Some tclAbstractListType \<and> ptr1 series_obj = Some 2
   \<and> mem cached_heap 2 = Some (RepBlock ((series_rep [0, 2, 2])\<lparr>elements := Some 3\<rparr>))
   \<and> 1 < brk cached_heap \<and> 2 < brk cached_heap
   \<and> elements ((series_rep [0, 2, 2])\<lparr>elements := Some 3\<rparr>) = Some 3
   \<and> lengthProc ((series_rep [0, 2, 2])\<lparr>elements := Some 3\<rparr>) = Some 100
   \<and> 0 < int_of_wide (lengthFn demo_env 100
            (abstractValue ((series_rep [0, 2, 2])\<lparr>elements := Some 3\<rparr>)))
   \<and> Tcl_AbstractListObjGetElements demo_env cached_heap None 1 7 None =
        Inr (TCL_OK, cached_heap, None, 2, Some 3)
   \<and> objs (series_heap [0, 2, 2]) 1 = Some series_obj
   \<and> mem (series_heap [0, 2, 2]) 2 = Some (RepBlock (series_rep [0, 2, 2]))
   \<and> 1 < brk (series_heap [0, 2, 2]) \<and> 2 < brk (series_heap [0, 2, 2])
   \<and> (\<exists>h'. Tcl_AbstractListObjGetElements demo_env (series_heap [0, 2, 2]) None 1 7 None =
               Inr (TCL_OK, h', None, 2, Some 3)
           \<and> Tcl_AbstractListObjGetElements demo_env h' None 1 0 None =
               Inr (TCL_OK, h', None, 2, Some 3))"
proof -
  have a: "objs cached_heap 1 = Some series_obj" by (simp add: cached_heap_def)
  have d: "mem cached_heap 2 = Some (RepBlock ((series_rep [0, 2, 2])\<lparr>elements := Some 3\<rparr>))"
    by (simp add: cached_heap_def)
  have b1: "1 < brk cached_heap" and b2: "2 < brk cached_heap" by (simp_all add: cached_heap_def)
  have e: "elements ((series_rep [0, 2, 2])\<lparr>elements := Some 3\<rparr>) = Some 3
     \<and> lengthProc ((series_rep [0, 2, 2])\<lparr>elements := Some 3\<rparr>) = Some 100
     \<and> 0 < int_of_wide (lengthFn demo_env 100
            (abstractValue ((series_rep [0, 2, 2])\<lparr>elements := Some 3\<rparr>)))"
    by (simp add: series_rep_def demo_env_def series_length_def int_of_wide_def)
  have v: "int_of_wide (lengthFn demo_env 100
            (abstractValue ((series_rep [0, 2, 2])\<lparr>elements := Some 3\<rparr>))) = 2"
    by (simp add: series_rep_def demo_env_def series_length_def int_of_wide_def)
  have c1: "Tcl_AbstractListObjGetElements demo_env cached_heap None 1 7 None =
        Inr (TCL_OK, cached_heap, None, 2, Some 3)"
    using GetElements_idempotent [OF a series_obj_facts d b1 b2, of demo_env None 7 None,
        THEN conjunct1, rule_format, of 3 100] e v
    by simp
  have a': "objs (series_heap [0, 2, 2]) 1 = Some series_obj" by (simp add: series_heap_def)
  have d': "mem (series_heap [0, 2, 2]) 2 = Some (RepBlock (series_rep [0, 2, 2]))"
    by (simp add: series_heap_def)
  have b1': "1 < brk (series_heap [0, 2, 2])" and b2': "2 < brk (series_heap [0, 2, 2])"
    by (simp_all add: series_heap_def)
  have v': "int_of_wide (lengthFn demo_env 100 (abstractValue (series_rep [0, 2, 2]))) = 2"
    by (simp add: series_rep_def demo_env_def series_length_def int_of_wide_def)
  obtain h' where first:
    "Tcl_AbstractListObjGetElements demo_env (series_heap [0, 2, 2]) None 1 7 None =
               Inr (TCL_OK, h', None, 2, Some 3)"
    using GetElements_fresh [OF a' series_obj_facts d', of 100 101 2 demo_env None 7 None] v'
    by (auto simp: series_rep_def series_heap_def demo_env_def)
  have second: "Tcl_AbstractListObjGetElements demo_env h' None 1 0 None =
               Inr (TCL_OK, h', None, 2, Some 3)"
    using GetElements_idempotent [OF a' series_obj_facts d' b1' b2', of demo_env None 7 None,
        THEN conjunct2, rule_format, OF first, of 0 None] .
  show ?thesis
    using a series_obj_facts d b1 b2 e c1 a' d' b1' b2' first second by auto
qed

text \<open>
  The claim as stated fails when the length, as \<^verbatim>\<open>int\<close>, is not positive: the test
  for a cache is never reached. Registering the length procedure of the run of empty
  strings in the header of the cached series leaves the cache at 3 in place; the call then
  sees the length 0 and returns NULL with the count 0, not the cache.
\<close>

theorem GetElements_cache_ignored_counterexample:
  "Tcl_AbstractListObjGetElements demo_env cached_heap None 1 7 (Some 9) =
     Inr (TCL_OK, cached_heap, None, 2, Some 3)
   \<and> Tcl_AbstractListSetProc cached_heap 1 TCL_ABSL_LENGTH (Some 200) = Inr (TCL_OK, shrunk_heap)
   \<and> cache_of shrunk_heap 1 = Some 3
   \<and> Tcl_AbstractListObjGetElements demo_env shrunk_heap None 1 7 (Some 9) =
       Inr (TCL_OK, shrunk_heap, None, 0, None)"
  by (simp add: Tcl_AbstractListObjGetElements_def Tcl_AbstractListSetProc_def store_rep_def
      deref_obj_def deref_rep_def call_lengthProc_def AbstractListGetInternalRep_def
      TclHasInternalRep_def cache_of_def Let_def shrunk_heap_def cached_heap_def
      series_obj_def series_rep_def demo_env_def blanks_length_def series_length_def
      int_of_wide_def)

subsection \<open>The string projection\<close>
































subsection \<open>Duplication and teardown\<close>

text \<open>
  The header is assigned as a whole, so the cache pointer of the copy is the cache
  pointer of the source, for every source, when no hook is registered that could
  change it.
\<close>

lemma Dup_copies_cache_pointer:
  assumes "objs h srcPtr = Some src" and "deref_rep h (ptr1 src) = Inr rep"
    and "objs h copyPtr = Some cp" and "unat (repSize rep) \<le> alloc_limit E"
    and "sizeof_AbstractList E \<le> repSize rep" and "dupRepProc rep = None"
  shows "\<exists>h'. DupAbstractListInternalRep E h srcPtr copyPtr = Inr h'
           \<and> cache_of h' copyPtr = elements rep"
  using assms
  by (simp add: DupAbstractListInternalRep_def deref_obj_def ckalloc_def cache_of_def
      deref_rep_def Let_def)

text \<open>
  The store \<open>cached_heap\<close> is the one \<open>Tcl_AbstractListObjGetElements\<close> leaves when
  it materializes the series \<open>0, 2\<close>.
\<close>

lemma cached_heap_reached:
  "Tcl_AbstractListObjGetElements demo_env (series_heap [0, 2, 2]) None 1 0 None =
     Inr (TCL_OK, cached_heap, None, 2, Some 3)"
proof -
  have "\<exists>h'. Tcl_AbstractListObjGetElements demo_env (series_heap [0, 2, 2]) None 1 0 None =
     Inr (TCL_OK, h', None, 2, Some 3) \<and> objs h' = objs cached_heap
     \<and> mem h' = mem cached_heap \<and> brk h' = brk cached_heap"
    apply (simp add: Tcl_AbstractListObjGetElements_def deref_obj_def TclHasInternalRep_def
      AbstractListGetInternalRep_def deref_rep_def deref_arr_def call_lengthProc_def Let_def
      ckalloc_def fill_elements.simps call_indexProc_def alloc_obj_def store_elem_def
      Tcl_IncrRefCount_def series_heap_def cached_heap_def series_obj_def series_rep_def
      demo_env_def series_length_def series_index_def int_of_wide_def dec_int_digit
      string_obj_def)
    apply (auto simp: fun_eq_iff numeral_2_eq_2)
    done
  then show ?thesis by auto
qed

text \<open>
  C1 says that the copy of a value with a populated cache has an absent cache of its
  own, so that destroying the copy leaves the source intact. The code does otherwise.
  Take the series \<open>0, 2\<close> at address 1 with its cache at 3 holding the elements at 4
  and 5, copy it with \<open>TclAbstractListObjCopy\<close> (the subtype's hook copies the payload)
  and destroy the copy with \<open>FreeAbstractListInternalRep\<close>. The copy's cache pointer
  is the source's, 3. After the copy is destroyed the source still points to 3, but the
  array there and both elements are gone: \<open>Tcl_AbstractListObjGetElements\<close> on the
  source returns the freed array, and destroying the source is a memory fault (the
  array is freed a second time).
\<close>

theorem Dup_shares_cache:
  "(case TclAbstractListObjCopy demo_env cached_heap None 1 of
      Inr (Some y, h1) \<Rightarrow>
        cache_of cached_heap 1 = Some 3 \<and> cache_of h1 1 = Some 3 \<and> cache_of h1 y = Some 3
        \<and> (case FreeAbstractListInternalRep demo_env h1 y of
              Inr h2 \<Rightarrow>
                cache_of h2 1 = Some 3 \<and> mem h2 3 = None
                \<and> objs cached_heap 4 \<noteq> None \<and> objs h2 4 = None
                \<and> objs cached_heap 5 \<noteq> None \<and> objs h2 5 = None
                \<and> Tcl_AbstractListObjGetElements demo_env h2 None 1 0 None =
                    Inr (TCL_OK, h2, None, 2, Some 3)
                \<and> entry h2 (Some 3) 0 = None
                \<and> FreeAbstractListInternalRep demo_env h2 1 = Inl MemoryFault
            | Inl e \<Rightarrow> False)
    | _ \<Rightarrow> False)"
  by (simp add: TclAbstractListObjCopy_def DupAbstractListInternalRep_def
      FreeAbstractListInternalRep_def free_elements.simps Tcl_AbstractListObjGetElements_def
      deref_obj_def deref_rep_def deref_arr_def AbstractListGetInternalRep_def
      TclHasInternalRep_def TclNewObj_def alloc_obj_def Tcl_InvalidateStringRep_def ckalloc_def
      ckfree_def call_lengthProc_def Tcl_DecrRefCount_def cache_of_def entry_def Let_def
      cached_heap_def series_obj_def series_rep_def demo_env_def series_length_def
      series_dup_def string_obj_def int_of_wide_def)

end
